theory Spec2Isabelle
  imports Complex_Main "HOL-Library.Sublist" "HOL-Library.List_Lexorder" "HOL-Library.Char_ord"
begin

section \<open>Values and errors\<close>

text \<open>
  The run records, suites and predictions of refua-bench are plain Python values as they come
  out of JSON or YAML: \<open>None\<close>, booleans, integers, floats, strings, lists and string-keyed
  dictionaries. A dictionary is an association list (the order of insertion is the order of
  the list). Floats are modelled as mathematical reals: rounding, overflow, infinities and
  NaN are outside the model.
\<close>

datatype json =
    JNull
  | JBool bool
  | JInt int
  | JNum real
  | JStr string
  | JList "json list"
  | JObj "(string \<times> json) list"

text \<open>Every failure of the modelled code is a Python \<open>ValueError\<close> carrying its message.\<close>

datatype error = ValueError string

text \<open>\<open>d.get(key)\<close>: the value stored under the key, \<open>None\<close> when the key is absent.\<close>

definition dict_get :: "(string \<times> json) list \<Rightarrow> string \<Rightarrow> json" where
  "dict_get d k = (case map_of d k of None \<Rightarrow> JNull | Some v \<Rightarrow> v)"

text \<open>The numeric reading of a value that Python's \<open>==\<close> compares numerically.\<close>

fun num_of :: "json \<Rightarrow> real option" where
  "num_of (JBool b) = Some (if b then 1 else 0)"
| "num_of (JInt i) = Some (real_of_int i)"
| "num_of (JNum r) = Some r"
| "num_of _ = None"

text \<open>
  Python's \<open>==\<close> on such values: booleans, integers and floats compare by numeric value
  (\<open>True == 1 == 1.0\<close>), strings by content, lists position by position, dictionaries key by
  key; values of different kinds are unequal.
\<close>

fun py_eq :: "json \<Rightarrow> json \<Rightarrow> bool"
  and py_eq_list :: "json list \<Rightarrow> json list \<Rightarrow> bool"
  and py_eq_dict :: "(string \<times> json) list \<Rightarrow> (string \<times> json) list \<Rightarrow> bool" where
  "py_eq JNull b = (b = JNull)"
| "py_eq (JBool x) b = (num_of b = Some (if x then 1 else 0))"
| "py_eq (JInt i) b = (num_of b = Some (real_of_int i))"
| "py_eq (JNum r) b = (num_of b = Some r)"
| "py_eq (JStr s) b = (b = JStr s)"
| "py_eq (JList xs) b = (case b of JList ys \<Rightarrow> py_eq_list xs ys | _ \<Rightarrow> False)"
| "py_eq (JObj d) b =
     (case b of JObj d' \<Rightarrow> length d = length d' \<and> py_eq_dict d d' | _ \<Rightarrow> False)"
| "py_eq_list [] ys = (ys = [])"
| "py_eq_list (x # xs) ys =
     (case ys of [] \<Rightarrow> False | y # ys' \<Rightarrow> py_eq x y \<and> py_eq_list xs ys')"
| "py_eq_dict [] d' = True"
| "py_eq_dict ((k, v) # rest) d' =
     ((case map_of d' k of None \<Rightarrow> False | Some w \<Rightarrow> py_eq v w) \<and> py_eq_dict rest d')"

section \<open>Metric engine (metrics.py)\<close>

definition metric_directions :: "(string \<times> string) list" where
  "metric_directions =
     [(''mae'', ''lower''), (''rmse'', ''lower''), (''accuracy'', ''higher''),
      (''exact_match'', ''higher''), (''f1'', ''higher'')]"

definition metric_direction :: "string \<Rightarrow> error + string" where
  "metric_direction metric =
     (case map_of metric_directions metric of
        Some d \<Rightarrow> Inr d
      | None \<Rightarrow> Inl (ValueError (''Unsupported metric: '' @ metric)))"

text \<open>
  \<open>float(value)\<close>. Python's parser of float literals is not part of the repository; it is the
  parameter \<open>fs\<close> (\<open>None\<close> where \<open>float(str)\<close> raises). \<open>None\<close>, lists and dictionaries raise
  \<open>TypeError\<close>; the result \<open>None\<close> stands for either exception.
\<close>

fun py_float :: "(string \<Rightarrow> real option) \<Rightarrow> json \<Rightarrow> real option" where
  "py_float fs (JBool b) = Some (if b then 1 else 0)"
| "py_float fs (JInt i) = Some (real_of_int i)"
| "py_float fs (JNum r) = Some r"
| "py_float fs (JStr s) = fs s"
| "py_float fs _ = None"

text \<open>The message interpolates \<open>repr(value)\<close>, which is left out of the model.\<close>

fun to_float_list :: "(string \<Rightarrow> real option) \<Rightarrow> json list \<Rightarrow> error + real list" where
  "to_float_list fs [] = Inr []"
| "to_float_list fs (v # vs) =
     (case py_float fs v of
        None \<Rightarrow> Inl (ValueError ''Expected numeric value, got ...'')
      | Some x \<Rightarrow>
          (case to_float_list fs vs of
             Inl e \<Rightarrow> Inl e
           | Inr xs \<Rightarrow> Inr (x # xs)))"

text \<open>The counting loop of \<open>_f1_binary\<close>: the three counters are the state.\<close>

fun f1_counts :: "json \<Rightarrow> (json \<times> json) list \<Rightarrow> nat \<times> nat \<times> nat \<Rightarrow> nat \<times> nat \<times> nat" where
  "f1_counts pl [] acc = acc"
| "f1_counts pl ((ex, pr) # rest) (tp, fp, fneg) =
     (let exp_positive = py_eq ex pl; pred_positive = py_eq pr pl in
      if exp_positive \<and> pred_positive then f1_counts pl rest (tp + 1, fp, fneg)
      else if \<not> exp_positive \<and> pred_positive then f1_counts pl rest (tp, fp + 1, fneg)
      else if exp_positive \<and> \<not> pred_positive then f1_counts pl rest (tp, fp, fneg + 1)
      else f1_counts pl rest (tp, fp, fneg))"

definition f1_binary :: "json list \<Rightarrow> json list \<Rightarrow> json \<Rightarrow> error + real" where
  "f1_binary expected predicted positive_label =
     (if length expected \<noteq> length predicted
      then Inl (ValueError ''zip() arguments have different lengths'')
      else
        (case f1_counts positive_label (zip expected predicted) (0, 0, 0) of
           (true_positive, false_positive, false_negative) \<Rightarrow>
             if true_positive = 0 \<and> false_positive = 0 \<and> false_negative = 0 then Inr 1
             else
               let precision_denom = true_positive + false_positive;
                   recall_denom = true_positive + false_negative;
                   precision = (if precision_denom = 0 then 0
                                else real true_positive / real precision_denom);
                   recall = (if recall_denom = 0 then 0
                             else real true_positive / real recall_denom)
               in if precision + recall = 0 then Inr 0
                  else Inr (2 * precision * recall / (precision + recall))))"

definition compute_metric ::
  "(string \<Rightarrow> real option) \<Rightarrow> string \<Rightarrow> json list \<Rightarrow> json list \<Rightarrow> json \<Rightarrow> error + real" where
  "compute_metric fs metric expected_values predicted_values positive_label =
     (if length expected_values \<noteq> length predicted_values
      then Inl (ValueError ''expected_values and predicted_values must have equal length'')
      else if expected_values = []
      then Inl (ValueError ''Cannot compute a metric on empty values'')
      else if metric = ''mae'' then
        (case to_float_list fs expected_values of
           Inl e \<Rightarrow> Inl e
         | Inr expected \<Rightarrow>
             (case to_float_list fs predicted_values of
                Inl e \<Rightarrow> Inl e
              | Inr predicted \<Rightarrow>
                  Inr (sum_list (map (\<lambda>(ex, pr). \<bar>ex - pr\<bar>) (zip expected predicted))
                       / real (length expected))))
      else if metric = ''rmse'' then
        (case to_float_list fs expected_values of
           Inl e \<Rightarrow> Inl e
         | Inr expected \<Rightarrow>
             (case to_float_list fs predicted_values of
                Inl e \<Rightarrow> Inl e
              | Inr predicted \<Rightarrow>
                  Inr (sqrt (sum_list (map (\<lambda>(ex, pr). (ex - pr)\<^sup>2) (zip expected predicted))
                             / real (length expected)))))
      else if metric = ''accuracy'' \<or> metric = ''exact_match'' then
        Inr (real (length (filter (\<lambda>(ex, pr). py_eq ex pr)
                             (zip expected_values predicted_values)))
             / real (length expected_values))
      else if metric = ''f1'' then f1_binary expected_values predicted_values positive_label
      else Inl (ValueError (''Unsupported metric: '' @ metric)))"

section \<open>Quantiles (compare.py)\<close>

text \<open>
  \<open>int(position)\<close> truncates towards zero; the position is never negative here, so it is
  the floor. \<open>sorted_values[-1]\<close> is the last element.
\<close>

definition quantile :: "real list \<Rightarrow> real \<Rightarrow> error + real" where
  "quantile values probability =
     (if values = [] then Inl (ValueError ''Cannot compute quantile on empty values'')
      else
        let sorted_values = sort values in
        if probability \<le> 0 then Inr (sorted_values ! 0)
        else if probability \<ge> 1 then Inr (last sorted_values)
        else
          let position = probability * real (length sorted_values - 1);
              low_index = nat \<lfloor>position\<rfloor>;
              high_index = min (low_index + 1) (length sorted_values - 1);
              fraction = position - real low_index;
              low_value = sorted_values ! low_index;
              high_value = sorted_values ! high_index
          in Inr (low_value + (high_value - low_value) * fraction))"

definition f1_formula :: "nat \<Rightarrow> nat \<Rightarrow> nat \<Rightarrow> real" where
  "f1_formula TP FP FN =
     (if TP = 0 \<and> FP = 0 \<and> FN = 0 then 1
      else
        let P = (if TP + FP = 0 then 0 else real TP / real (TP + FP));
            R = (if TP + FN = 0 then 0 else real TP / real (TP + FN))
        in if P + R = 0 then 0 else 2 * P * R / (P + R))"

section \<open>Suite model (schema.py)\<close>

record BenchmarkCase =
  case_id :: string
  input :: "(string \<times> json) list"
  expected :: "(string \<times> json) list"
  tags :: "string list"

record BenchmarkTask =
  task_id :: string
  metric :: string
  prediction_key :: string
  expected_key :: string
  regression_tolerance :: real
  weight :: real
  positive_label :: json
  cases :: "BenchmarkCase list"

record BenchmarkSuite =
  name :: string
  version :: string
  description :: string
  tasks :: "BenchmarkTask list"
  metadata :: "(string \<times> json) list"


section \<open>Comparison engine (compare.py)\<close>

record StatisticalPolicy =
  min_effect_size :: real
  bootstrap_resamples :: int
  confidence_level :: real
  bootstrap_seed :: "int option"
  fail_on_uncertain :: bool

definition default_policy :: StatisticalPolicy where
  "default_policy =
     \<lparr>min_effect_size = 0, bootstrap_resamples = 0, confidence_level = 95 / 100,
      bootstrap_seed = None, fail_on_uncertain = False\<rparr>"

definition bootstrap_enabled :: "StatisticalPolicy \<Rightarrow> bool" where
  "bootstrap_enabled p = (bootstrap_resamples p > 0)"

record TaskComparison =
  tc_task_id :: string
  tc_metric :: string
  tc_direction :: string
  tc_baseline_score :: "real option"
  tc_candidate_score :: "real option"
  tc_tolerance :: real
  tc_threshold :: real
  tc_delta :: "real option"
  tc_regression_amount :: "real option"
  tc_ci_low :: "real option"
  tc_ci_high :: "real option"
  tc_p_regression :: "real option"
  tc_paired_cases :: nat
  tc_status :: string
  tc_message :: string


text \<open>
  Python's \<open>random.Random\<close> is not part of the repository. A generator is a value of type
  \<open>'g\<close>: \<open>seeded s\<close> is \<open>Random(s)\<close> for an integer seed, \<open>unseeded i\<close> is the generator that
  \<open>Random(None)\<close> gets from the operating system's entropy at the \<open>i\<close>-th task of a call, and
  \<open>randrange g n\<close> draws from \<open>g\<close> and returns the draw with the generator's next state.
\<close>

record 'g rng_api =
  seeded :: "int \<Rightarrow> 'g"
  unseeded :: "nat \<Rightarrow> 'g"
  randrange :: "'g \<Rightarrow> nat \<Rightarrow> nat \<times> 'g"

text \<open>
  \<open>rng.randrange(n)\<close> returns a value below \<open>n\<close>. The reduction modulo \<open>n\<close> writes this
  guarantee of the library into the model: it is the identity on every draw below \<open>n\<close>.
\<close>

definition py_randrange :: "'g rng_api \<Rightarrow> 'g \<Rightarrow> nat \<Rightarrow> nat \<times> 'g" where
  "py_randrange R g n = (case randrange R g n of (i, g') \<Rightarrow> (i mod n, g'))"

text \<open>\<open>d[key] = value\<close> on a dictionary: an existing key keeps its place.\<close>

primrec dict_set :: "string \<Rightarrow> 'a \<Rightarrow> (string \<times> 'a) list \<Rightarrow> (string \<times> 'a) list" where
  "dict_set k v [] = [(k, v)]"
| "dict_set k v (p # ps) = (if fst p = k then (k, v) # ps else p # dict_set k v ps)"

definition seed_for_task :: "int option \<Rightarrow> nat \<Rightarrow> int option" where
  "seed_for_task seed task_index =
     (case seed of None \<Rightarrow> None | Some s \<Rightarrow> Some (s + int task_index))"

text \<open>The loop of \<open>_task_map\<close>: entries that are not dictionaries with a string id are skipped.\<close>

fun task_map_loop ::
  "json list \<Rightarrow> (string \<times> (string \<times> json) list) list \<Rightarrow> (string \<times> (string \<times> json) list) list" where
  "task_map_loop [] task_map = task_map"
| "task_map_loop (task # rest) task_map =
     (case task of
        JObj d \<Rightarrow>
          (case dict_get d ''task_id'' of
             JStr tid \<Rightarrow> task_map_loop rest (dict_set tid d task_map)
           | _ \<Rightarrow> task_map_loop rest task_map)
      | _ \<Rightarrow> task_map_loop rest task_map)"

definition task_map :: "(string \<times> json) list \<Rightarrow> (string \<times> (string \<times> json) list) list" where
  "task_map run_payload =
     (case (case map_of run_payload ''task_results'' of None \<Rightarrow> JList [] | Some v \<Rightarrow> v) of
        JList raw_tasks \<Rightarrow> task_map_loop raw_tasks []
      | _ \<Rightarrow> [])"

text \<open>\<open>_extract_score\<close>: \<open>None\<close> for a missing task, a null score or one that \<open>float\<close> rejects.\<close>

definition extract_score ::
  "(string \<Rightarrow> real option) \<Rightarrow> (string \<times> json) list option \<Rightarrow> real option" where
  "extract_score fs task_payload =
     (case task_payload of
        None \<Rightarrow> None
      | Some d \<Rightarrow> (case dict_get d ''score'' of JNull \<Rightarrow> None | score \<Rightarrow> py_float fs score))"

fun case_map_loop ::
  "json list \<Rightarrow> (string \<times> (string \<times> json) list) list \<Rightarrow> (string \<times> (string \<times> json) list) list" where
  "case_map_loop [] case_map = case_map"
| "case_map_loop (c # rest) case_map =
     (case c of
        JObj d \<Rightarrow>
          (case dict_get d ''case_id'' of
             JStr cid \<Rightarrow> case_map_loop rest (dict_set cid d case_map)
           | _ \<Rightarrow> case_map_loop rest case_map)
      | _ \<Rightarrow> case_map_loop rest case_map)"

definition case_map :: "(string \<times> json) list \<Rightarrow> (string \<times> (string \<times> json) list) list" where
  "case_map task_payload =
     (case (case map_of task_payload ''case_results'' of None \<Rightarrow> JList [] | Some v \<Rightarrow> v) of
        JList raw_cases \<Rightarrow> case_map_loop raw_cases []
      | _ \<Rightarrow> [])"

text \<open>The loop of \<open>_paired_cases\<close> over the items of the baseline's case map.\<close>

fun paired_cases_loop ::
  "(string \<times> (string \<times> json) list) list \<Rightarrow> (string \<times> (string \<times> json) list) list \<Rightarrow>
   (json \<times> json \<times> json \<times> json) list" where
  "paired_cases_loop [] candidate_cases = []"
| "paired_cases_loop ((cid, baseline_case) # rest) candidate_cases =
     (case map_of candidate_cases cid of
        None \<Rightarrow> paired_cases_loop rest candidate_cases
      | Some candidate_case \<Rightarrow>
          if dict_get baseline_case ''error'' \<noteq> JNull \<or> dict_get candidate_case ''error'' \<noteq> JNull
          then paired_cases_loop rest candidate_cases
          else
            let baseline_expected = dict_get baseline_case ''expected'';
                baseline_predicted = dict_get baseline_case ''predicted'';
                candidate_expected = dict_get candidate_case ''expected'';
                candidate_predicted = dict_get candidate_case ''predicted''
            in if baseline_expected = JNull \<or> baseline_predicted = JNull
               then paired_cases_loop rest candidate_cases
               else if candidate_expected = JNull \<or> candidate_predicted = JNull
               then paired_cases_loop rest candidate_cases
               else (baseline_expected, baseline_predicted, candidate_expected, candidate_predicted)
                    # paired_cases_loop rest candidate_cases)"

definition paired_cases ::
  "(string \<times> json) list \<Rightarrow> (string \<times> json) list \<Rightarrow> (json \<times> json \<times> json \<times> json) list" where
  "paired_cases baseline_task candidate_task =
     paired_cases_loop (case_map baseline_task) (case_map candidate_task)"

text \<open>\<open>[rng.randrange(n_cases) for _ in range(n_cases)]\<close>: \<open>k\<close> draws in sequence.\<close>

fun draw_indices :: "'g rng_api \<Rightarrow> nat \<Rightarrow> nat \<Rightarrow> 'g \<Rightarrow> nat list \<times> 'g" where
  "draw_indices R n_cases 0 g = ([], g)"
| "draw_indices R n_cases (Suc k) g =
     (case py_randrange R g n_cases of
        (idx, g') \<Rightarrow>
          (case draw_indices R n_cases k g' of (indices, g'') \<Rightarrow> (idx # indices, g'')))"

text \<open>
  The resampling loop of \<open>_bootstrap_regression_stats\<close>. The state is the generator, the
  samples so far and the number of hits; \<open>None\<close> is the early \<open>return None\<close> on a
  \<open>ValueError\<close> of the metric.
\<close>

fun resample_loop ::
  "(string \<Rightarrow> real option) \<Rightarrow> 'g rng_api \<Rightarrow> string \<Rightarrow> string \<Rightarrow> json \<Rightarrow>
   (json \<times> json \<times> json \<times> json) list \<Rightarrow> real \<Rightarrow> nat \<Rightarrow> 'g \<Rightarrow> real list \<Rightarrow> nat \<Rightarrow>
   (real list \<times> nat) option" where
  "resample_loop fs R metric_name direction pos_label pairs threshold 0 g
     regression_samples regression_hits = Some (regression_samples, regression_hits)"
| "resample_loop fs R metric_name direction pos_label pairs threshold (Suc k) g
     regression_samples regression_hits =
     (case draw_indices R (length pairs) (length pairs) g of
        (indices, g') \<Rightarrow>
          let b_expected = map (\<lambda>idx. fst (pairs ! idx)) indices;
              b_predicted = map (\<lambda>idx. fst (snd (pairs ! idx))) indices;
              c_expected = map (\<lambda>idx. fst (snd (snd (pairs ! idx)))) indices;
              c_predicted = map (\<lambda>idx. snd (snd (snd (pairs ! idx)))) indices
          in (case compute_metric fs metric_name b_expected b_predicted pos_label of
                Inl e \<Rightarrow> None
              | Inr baseline_score \<Rightarrow>
                  (case compute_metric fs metric_name c_expected c_predicted pos_label of
                     Inl e \<Rightarrow> None
                   | Inr candidate_score \<Rightarrow>
                       let delta = candidate_score - baseline_score;
                           regression_amount = (if direction = ''lower'' then delta else - delta)
                       in resample_loop fs R metric_name direction pos_label pairs threshold k g'
                            (regression_samples @ [regression_amount])
                            (if regression_amount > threshold then regression_hits + 1
                             else regression_hits))))"

definition bootstrap_regression_stats ::
  "(string \<Rightarrow> real option) \<Rightarrow> 'g rng_api \<Rightarrow> string \<Rightarrow> string \<Rightarrow> json \<Rightarrow>
   (json \<times> json \<times> json \<times> json) list \<Rightarrow> real \<Rightarrow> int \<Rightarrow> real \<Rightarrow> 'g \<Rightarrow>
   error + (real \<times> real \<times> real) option" where
  "bootstrap_regression_stats fs R metric_name direction pos_label pairs threshold resamples
     conf_level rng =
     (if length pairs < 2 \<or> resamples \<le> 0 then Inr None
      else
        (case resample_loop fs R metric_name direction pos_label pairs threshold (nat resamples)
                rng [] 0 of
           None \<Rightarrow> Inr None
         | Some (regression_samples, regression_hits) \<Rightarrow>
             let alpha = 1 - conf_level in
             (case quantile regression_samples (alpha / 2) of
                Inl e \<Rightarrow> Inl e
              | Inr ci_low \<Rightarrow>
                  (case quantile regression_samples (1 - alpha / 2) of
                     Inl e \<Rightarrow> Inl e
                   | Inr ci_high \<Rightarrow>
                       Inr (Some (ci_low, ci_high,
                                  real regression_hits / real (length regression_samples)))))))"

text \<open>
  The body of the loop of \<open>compare_runs\<close> for the task at \<open>task_index\<close>. The state is the
  list of comparisons and the two counters; a \<open>ValueError\<close> (of \<open>metric_direction\<close> or of the
  quantile) leaves the whole call.
\<close>

definition compare_step ::
  "(string \<Rightarrow> real option) \<Rightarrow> 'g rng_api \<Rightarrow> StatisticalPolicy \<Rightarrow>
   (string \<times> (string \<times> json) list) list \<Rightarrow> (string \<times> (string \<times> json) list) list \<Rightarrow>
   nat \<times> BenchmarkTask \<Rightarrow> TaskComparison list \<times> nat \<times> nat \<Rightarrow>
   error + TaskComparison list \<times> nat \<times> nat" where
  "compare_step fs R active_policy baseline_tasks candidate_tasks it st =
     (case it of (task_index, task) \<Rightarrow>
      case st of (comparisons, regressions, uncertain) \<Rightarrow>
      let baseline_task = map_of baseline_tasks (task_id task);
          candidate_task = map_of candidate_tasks (task_id task);
          threshold = max (regression_tolerance task) (min_effect_size active_policy)
      in
      if baseline_task = None then
        (case metric_direction (metric task) of
           Inl e \<Rightarrow> Inl e
         | Inr direction \<Rightarrow>
             Inr (comparisons @
                  [\<lparr>tc_task_id = task_id task, tc_metric = metric task, tc_direction = direction,
                    tc_baseline_score = None,
                    tc_candidate_score = extract_score fs candidate_task,
                    tc_tolerance = regression_tolerance task, tc_threshold = threshold,
                    tc_delta = None, tc_regression_amount = None, tc_ci_low = None,
                    tc_ci_high = None, tc_p_regression = None, tc_paired_cases = 0,
                    tc_status = ''regression'',
                    tc_message = ''Task missing in baseline run''\<rparr>],
                  regressions + 1, uncertain))
      else if candidate_task = None then
        (case metric_direction (metric task) of
           Inl e \<Rightarrow> Inl e
         | Inr direction \<Rightarrow>
             Inr (comparisons @
                  [\<lparr>tc_task_id = task_id task, tc_metric = metric task, tc_direction = direction,
                    tc_baseline_score = extract_score fs baseline_task,
                    tc_candidate_score = None,
                    tc_tolerance = regression_tolerance task, tc_threshold = threshold,
                    tc_delta = None, tc_regression_amount = None, tc_ci_low = None,
                    tc_ci_high = None, tc_p_regression = None, tc_paired_cases = 0,
                    tc_status = ''regression'',
                    tc_message = ''Task missing in candidate run''\<rparr>],
                  regressions + 1, uncertain))
      else
        let baseline_score = extract_score fs baseline_task;
            candidate_score = extract_score fs candidate_task
        in
        if baseline_score = None \<or> candidate_score = None then
          (case metric_direction (metric task) of
             Inl e \<Rightarrow> Inl e
           | Inr direction \<Rightarrow>
               Inr (comparisons @
                    [\<lparr>tc_task_id = task_id task, tc_metric = metric task,
                      tc_direction = direction,
                      tc_baseline_score = baseline_score,
                      tc_candidate_score = candidate_score,
                      tc_tolerance = regression_tolerance task, tc_threshold = threshold,
                      tc_delta = None, tc_regression_amount = None, tc_ci_low = None,
                      tc_ci_high = None, tc_p_regression = None, tc_paired_cases = 0,
                      tc_status = ''regression'',
                      tc_message = ''Missing score in one of the runs''\<rparr>],
                    regressions + 1, uncertain))
        else
          (case metric_direction (metric task) of
             Inl e \<Rightarrow> Inl e
           | Inr direction \<Rightarrow>
               let delta = the candidate_score - the baseline_score;
                   regression_amount = (if direction = ''lower'' then delta else - delta);
                   (status0, message0) =
                     (if regression_amount > threshold
                      then (''regression'', ''Exceeded threshold'')
                      else (''pass'', ''Within threshold''))
               in
               (case
                  (if bootstrap_enabled active_policy then
                     let paired_cases_data = paired_cases (the baseline_task) (the candidate_task)
                     in
                     (case bootstrap_regression_stats fs R (metric task) direction
                             (positive_label task) paired_cases_data threshold
                             (bootstrap_resamples active_policy)
                             (confidence_level active_policy)
                             (case seed_for_task (bootstrap_seed active_policy) task_index of
                                None \<Rightarrow> unseeded R task_index
                              | Some s \<Rightarrow> seeded R s) of
                        Inl e \<Rightarrow> Inl e
                      | Inr (Some (ci_low, ci_high, p_regression)) \<Rightarrow>
                          Inr (Some ci_low, Some ci_high, Some p_regression,
                               length paired_cases_data,
                               if regression_amount \<le> threshold
                               then (''pass'', ''Within threshold'')
                               else if ci_low > threshold
                               then (''regression'', ''Bootstrap CI confirms regression'')
                               else if ci_high \<le> threshold
                               then (''pass'', ''Bootstrap CI rejects regression'')
                               else (''uncertain'',
                                     ''Regression signal is inconclusive under bootstrap CI''))
                      | Inr None \<Rightarrow>
                          Inr (None, None, None, length paired_cases_data,
                               if regression_amount > threshold
                               then (''uncertain'', ''Insufficient paired cases for bootstrap CI'')
                               else (status0, message0)))
                   else Inr (None, None, None, 0, (status0, message0))) of
                  Inl e \<Rightarrow> Inl e
                | Inr (ci_low, ci_high, p_regression, n_paired, status, message) \<Rightarrow>
                    Inr (comparisons @
                         [\<lparr>tc_task_id = task_id task, tc_metric = metric task,
                           tc_direction = direction,
                           tc_baseline_score = baseline_score,
                           tc_candidate_score = candidate_score,
                           tc_tolerance = regression_tolerance task, tc_threshold = threshold,
                           tc_delta = Some delta, tc_regression_amount = Some regression_amount,
                           tc_ci_low = ci_low, tc_ci_high = ci_high,
                           tc_p_regression = p_regression, tc_paired_cases = n_paired,
                           tc_status = status, tc_message = message\<rparr>],
                         if status = ''regression'' then regressions + 1 else regressions,
                         if status \<noteq> ''regression'' \<and> status = ''uncertain''
                         then uncertain + 1 else uncertain))))"






section \<open>Runner (runner.py)\<close>

record CaseResult =
  cr_case_id :: string
  cr_expected :: json
  cr_predicted :: json
  cr_duration_ms :: real
  cr_error :: "string option"

record TaskResult =
  tr_task_id :: string
  tr_metric :: string
  tr_direction :: string
  tr_score :: "real option"
  tr_cases_total :: nat
  tr_case_failures :: nat
  tr_case_results :: "CaseResult list"

record BenchmarkRun =
  run_id :: string
  run_suite_name :: string
  run_suite_version :: string
  run_adapter :: string
  run_started_at :: string
  run_finished_at :: string
  run_summary :: "(string \<times> json) list"
  run_task_results :: "TaskResult list"
  run_provenance :: "(string \<times> json) list"

text \<open>
  The prediction source: its name and its \<open>predict\<close>, which returns a mapping or raises; an
  exception is \<open>Inl\<close> of its \<open>str\<close>.
\<close>

record ModelAdapter =
  adapter_name :: string
  predict :: "BenchmarkTask \<Rightarrow> BenchmarkCase \<Rightarrow> string + (string \<times> json) list"

text \<open>
  What a call reads from outside the program: the fresh \<open>uuid4().hex\<close>, the two timestamps
  in ISO format, and the milliseconds \<open>perf_counter\<close> measures for a case.
\<close>

record run_env =
  env_run_id :: string
  env_started_at :: string
  env_finished_at :: string
  env_duration_ms :: "BenchmarkTask \<Rightarrow> BenchmarkCase \<Rightarrow> real"

text \<open>
  \<open>str(KeyError(message))\<close> is \<open>repr(message)\<close>; the message holds an apostrophe, so the repr
  is the message in double quotes (escapes inside the message are not modelled).
\<close>

definition key_error_str :: "string \<Rightarrow> string" where
  "key_error_str message = [CHR 0x22] @ message @ [CHR 0x22]"

text \<open>
  The loop of \<open>_run_task\<close> over the cases. The state is the expected values, the predicted
  values, the case results and the number of failures.
\<close>

fun run_cases ::
  "ModelAdapter \<Rightarrow> run_env \<Rightarrow> BenchmarkTask \<Rightarrow> BenchmarkCase list \<Rightarrow>
   json list \<times> json list \<times> CaseResult list \<times> nat \<Rightarrow>
   json list \<times> json list \<times> CaseResult list \<times> nat" where
  "run_cases adapter env task [] st = st"
| "run_cases adapter env task (c # rest) (expected_values, predicted_values, case_results,
     case_failures) =
     (let expected_value = dict_get (expected c) (expected_key task) in
      case predict adapter task c of
        Inl exc \<Rightarrow>
          run_cases adapter env task rest
            (expected_values, predicted_values,
             case_results @
               [\<lparr>cr_case_id = case_id c, cr_expected = expected_value, cr_predicted = JNull,
                 cr_duration_ms = env_duration_ms env task c, cr_error = Some exc\<rparr>],
             case_failures + 1)
      | Inr output \<Rightarrow>
          (case map_of output (prediction_key task) of
             None \<Rightarrow>
               run_cases adapter env task rest
                 (expected_values, predicted_values,
                  case_results @
                    [\<lparr>cr_case_id = case_id c, cr_expected = expected_value,
                      cr_predicted = JNull,
                      cr_duration_ms = env_duration_ms env task c,
                      cr_error =
                        Some (key_error_str
                          (''Missing prediction key '' @ [CHR 0x27] @ prediction_key task
                           @ [CHR 0x27] @ '' in adapter output for case '' @ [CHR 0x27]
                           @ case_id c @ [CHR 0x27]))\<rparr>],
                  case_failures + 1)
           | Some predicted \<Rightarrow>
               run_cases adapter env task rest
                 (expected_values @ [expected_value], predicted_values @ [predicted],
                  case_results @
                    [\<lparr>cr_case_id = case_id c, cr_expected = expected_value,
                      cr_predicted = predicted,
                      cr_duration_ms = env_duration_ms env task c, cr_error = None\<rparr>],
                  case_failures)))"

definition run_task ::
  "(string \<Rightarrow> real option) \<Rightarrow> ModelAdapter \<Rightarrow> run_env \<Rightarrow> BenchmarkTask \<Rightarrow>
   error + TaskResult" where
  "run_task fs adapter env task =
     (case run_cases adapter env task (cases task) ([], [], [], 0) of
        (expected_values, predicted_values, case_results, case_failures) \<Rightarrow>
          (case (if expected_values \<noteq> []
                 then map_sum id Some
                        (compute_metric fs (metric task) expected_values predicted_values
                           (positive_label task))
                 else Inr None) of
             Inl e \<Rightarrow> Inl e
           | Inr score \<Rightarrow>
               (case metric_direction (metric task) of
                  Inl e \<Rightarrow> Inl e
                | Inr direction \<Rightarrow>
                    Inr \<lparr>tr_task_id = task_id task, tr_metric = metric task,
                         tr_direction = direction, tr_score = score,
                         tr_cases_total = length (cases task),
                         tr_case_failures = case_failures,
                         tr_case_results = case_results\<rparr>)))"

text \<open>The loop of \<open>run_benchmark\<close> over the tasks; an exception of a task leaves the call.\<close>

fun run_tasks ::
  "(string \<Rightarrow> real option) \<Rightarrow> ModelAdapter \<Rightarrow> run_env \<Rightarrow> BenchmarkTask list \<Rightarrow>
   TaskResult list \<times> nat \<times> nat \<times> nat \<Rightarrow> error + TaskResult list \<times> nat \<times> nat \<times> nat" where
  "run_tasks fs adapter env [] st = Inr st"
| "run_tasks fs adapter env (task # rest) (task_results, cases_total, case_failures,
     tasks_with_errors) =
     (case run_task fs adapter env task of
        Inl e \<Rightarrow> Inl e
      | Inr result \<Rightarrow>
          run_tasks fs adapter env rest
            (task_results @ [result], cases_total + tr_cases_total result,
             case_failures + tr_case_failures result,
             if tr_case_failures result > 0 \<or> tr_score result = None
             then tasks_with_errors + 1 else tasks_with_errors))"

definition run_benchmark ::
  "(string \<Rightarrow> real option) \<Rightarrow> run_env \<Rightarrow> BenchmarkSuite \<Rightarrow> ModelAdapter \<Rightarrow>
   (string \<times> json) list option \<Rightarrow> error + BenchmarkRun" where
  "run_benchmark fs env suite adapter provenance =
     (case run_tasks fs adapter env (tasks suite) ([], 0, 0, 0) of
        Inl e \<Rightarrow> Inl e
      | Inr (task_results, cases_total, case_failures, tasks_with_errors) \<Rightarrow>
          Inr \<lparr>run_id = env_run_id env, run_suite_name = name suite,
               run_suite_version = version suite, run_adapter = adapter_name adapter,
               run_started_at = env_started_at env, run_finished_at = env_finished_at env,
               run_summary =
                 [(''tasks_total'', JInt (int (length (tasks suite)))),
                  (''tasks_with_errors'', JInt (int tasks_with_errors)),
                  (''cases_total'', JInt (int cases_total)),
                  (''case_failures'', JInt (int case_failures)),
                  (''all_cases_succeeded'', JBool (case_failures = 0))],
               run_task_results = task_results,
               run_provenance = (case provenance of None \<Rightarrow> [] | Some p \<Rightarrow> p)\<rparr>)"

text \<open>\<open>to_dict\<close>: \<open>dataclasses.asdict\<close>, field by field in the order of declaration.\<close>

definition case_result_to_dict :: "CaseResult \<Rightarrow> json" where
  "case_result_to_dict cr =
     JObj [(''case_id'', JStr (cr_case_id cr)), (''expected'', cr_expected cr),
           (''predicted'', cr_predicted cr), (''duration_ms'', JNum (cr_duration_ms cr)),
           (''error'', (case cr_error cr of None \<Rightarrow> JNull | Some m \<Rightarrow> JStr m))]"

definition task_result_to_dict :: "TaskResult \<Rightarrow> json" where
  "task_result_to_dict tr =
     JObj [(''task_id'', JStr (tr_task_id tr)), (''metric'', JStr (tr_metric tr)),
           (''direction'', JStr (tr_direction tr)),
           (''score'', (case tr_score tr of None \<Rightarrow> JNull | Some s \<Rightarrow> JNum s)),
           (''cases_total'', JInt (int (tr_cases_total tr))),
           (''case_failures'', JInt (int (tr_case_failures tr))),
           (''case_results'', JList (map case_result_to_dict (tr_case_results tr)))]"

definition to_dict :: "BenchmarkRun \<Rightarrow> json" where
  "to_dict run =
     JObj [(''run_id'', JStr (run_id run)), (''suite_name'', JStr (run_suite_name run)),
           (''suite_version'', JStr (run_suite_version run)),
           (''adapter'', JStr (run_adapter run)),
           (''started_at'', JStr (run_started_at run)),
           (''finished_at'', JStr (run_finished_at run)),
           (''summary'', JObj (run_summary run)),
           (''task_results'', JList (map task_result_to_dict (run_task_results run))),
           (''provenance'', JObj (run_provenance run))]"

text \<open>\<open>GoldenAdapter\<close> (adapters.py) answers with the case's expected mapping.\<close>

definition GoldenAdapter :: ModelAdapter where
  "GoldenAdapter = \<lparr>adapter_name = ''golden'', predict = (\<lambda>task c. Inr (expected c))\<rparr>"

text \<open>The pairs the loop of \<open>_run_task\<close> includes: those of the cases that succeed.\<close>

definition case_succeeds :: "ModelAdapter \<Rightarrow> BenchmarkTask \<Rightarrow> BenchmarkCase \<Rightarrow> json \<Rightarrow> bool" where
  "case_succeeds adapter task c predicted =
     (case predict adapter task c of
        Inl exc \<Rightarrow> False
      | Inr output \<Rightarrow> map_of output (prediction_key task) = Some predicted)"

section \<open>Run artifact validator (run_artifact.py)\<close>

definition TOP_LEVEL_KEYS :: "string list" where
  "TOP_LEVEL_KEYS =
     [''run_id'', ''suite_name'', ''suite_version'', ''adapter'', ''started_at'',
      ''finished_at'', ''summary'', ''task_results'', ''provenance'']"

definition SUMMARY_KEYS :: "string list" where
  "SUMMARY_KEYS =
     [''tasks_total'', ''tasks_with_errors'', ''cases_total'', ''case_failures'',
      ''all_cases_succeeded'']"

definition TASK_KEYS :: "string list" where
  "TASK_KEYS =
     [''task_id'', ''metric'', ''direction'', ''score'', ''cases_total'', ''case_failures'',
      ''case_results'']"

definition CASE_KEYS :: "string list" where
  "CASE_KEYS = [''case_id'', ''expected'', ''predicted'', ''duration_ms'', ''error'']"

text \<open>
  Sequencing of checks that may raise: the first \<open>ValueError\<close> leaves the call.
\<close>

fun bind_err :: "error + 'a \<Rightarrow> ('a \<Rightarrow> error + 'b) \<Rightarrow> error + 'b" where
  "bind_err (Inl e) f = Inl e"
| "bind_err (Inr x) f = f x"

text \<open>Decimal digits of integers, \<open>str\<close> of a boolean, \<open>repr\<close> of a list of plain strings.\<close>

fun str_nat :: "nat \<Rightarrow> string" where
  "str_nat n =
     (if n < 10 then [char_of (48 + n)] else str_nat (n div 10) @ [char_of (48 + n mod 10)])"

declare str_nat.simps [simp del]

definition str_int :: "int \<Rightarrow> string" where
  "str_int i = (if i < 0 then ''-'' @ str_nat (nat (- i)) else str_nat (nat i))"

definition str_bool :: "bool \<Rightarrow> string" where
  "str_bool b = (if b then ''True'' else ''False'')"

fun join_strs :: "string \<Rightarrow> string list \<Rightarrow> string" where
  "join_strs sep [] = []"
| "join_strs sep [x] = x"
| "join_strs sep (x # y # ys) = x @ sep @ join_strs sep (y # ys)"

definition repr_str_list :: "string list \<Rightarrow> string" where
  "repr_str_list xs =
     ''['' @ join_strs '', '' (map (\<lambda>s. [CHR 0x27] @ s @ [CHR 0x27]) xs) @ '']''"

text \<open>
  \<open>str.strip()\<close> on ASCII strings: it removes leading and trailing tab, line feed, vertical
  tab, form feed, carriage return, the separators 0x1C to 0x1F and the space.
\<close>

definition is_space :: "char \<Rightarrow> bool" where
  "is_space c = (of_char c \<in> {9 :: nat, 10, 11, 12, 13, 28, 29, 30, 31, 32})"

definition strip :: "string \<Rightarrow> string" where
  "strip s = rev (dropWhile is_space (rev (dropWhile is_space s)))"

definition validate_key_set :: "(string \<times> json) list \<Rightarrow> string list \<Rightarrow> string \<Rightarrow> error + unit" where
  "validate_key_set payload required path =
     (let keys = map fst payload;
          missing = sort (remdups (filter (\<lambda>k. k \<notin> set keys) required));
          extra = sort (remdups (filter (\<lambda>k. k \<notin> set required) keys))
      in if missing \<noteq> [] \<or> extra \<noteq> []
         then Inl (ValueError (path @ '' has invalid keys (missing='' @ repr_str_list missing
                               @ '', extra='' @ repr_str_list extra @ '')''))
         else Inr ())"

definition require_mapping :: "json \<Rightarrow> string \<Rightarrow> error + (string \<times> json) list" where
  "require_mapping v path =
     (case v of JObj d \<Rightarrow> Inr d | _ \<Rightarrow> Inl (ValueError (path @ '' must be an object'')))"

definition require_list :: "json \<Rightarrow> string \<Rightarrow> error + json list" where
  "require_list v path =
     (case v of JList xs \<Rightarrow> Inr xs | _ \<Rightarrow> Inl (ValueError (path @ '' must be a list'')))"

definition require_non_empty_str :: "json \<Rightarrow> string \<Rightarrow> error + string" where
  "require_non_empty_str v path =
     (case v of
        JStr s \<Rightarrow>
          (let normalized = strip s in
           if normalized = [] then Inl (ValueError (path @ '' must be a non-empty string''))
           else Inr normalized)
      | _ \<Rightarrow> Inl (ValueError (path @ '' must be a string'')))"

definition require_non_negative_int :: "json \<Rightarrow> string \<Rightarrow> error + int" where
  "require_non_negative_int v path =
     (case v of
        JInt i \<Rightarrow>
          (if i < 0 then Inl (ValueError (path @ '' must be a non-negative integer''))
           else Inr i)
      | _ \<Rightarrow> Inl (ValueError (path @ '' must be a non-negative integer'')))"

definition require_bool :: "json \<Rightarrow> string \<Rightarrow> error + bool" where
  "require_bool v path =
     (case v of JBool b \<Rightarrow> Inr b | _ \<Rightarrow> Inl (ValueError (path @ '' must be a boolean'')))"

text \<open>Every real is finite: the \<open>math.isfinite\<close> test of the source never fails here.\<close>

definition require_finite_number :: "json \<Rightarrow> string \<Rightarrow> error + real" where
  "require_finite_number v path =
     (case v of
        JInt i \<Rightarrow> Inr (real_of_int i)
      | JNum r \<Rightarrow> Inr r
      | _ \<Rightarrow> Inl (ValueError (path @ '' must be a finite number'')))"

definition require_non_negative_finite_number :: "json \<Rightarrow> string \<Rightarrow> error + real" where
  "require_non_negative_finite_number v path =
     bind_err (require_finite_number v path)
       (\<lambda>numeric. if numeric < 0 then Inl (ValueError (path @ '' must be >= 0''))
                  else Inr numeric)"

definition require_optional_finite_number :: "json \<Rightarrow> string \<Rightarrow> error + real option" where
  "require_optional_finite_number v path =
     (if v = JNull then Inr None else map_sum id Some (require_finite_number v path))"

text \<open>
  The body of the loop over the case results of a task (lines 132 to 150). The state is the
  set of case ids seen and the number of failures observed.
\<close>

definition validate_case ::
  "string \<Rightarrow> nat \<Rightarrow> json \<Rightarrow> string set \<times> nat \<Rightarrow> error + string set \<times> nat" where
  "validate_case task_path case_index case_item st =
     (case st of (case_ids, observed_case_failures) \<Rightarrow>
      let case_path = task_path @ ''.case_results['' @ str_nat case_index @ '']'' in
      bind_err (require_mapping case_item case_path) (\<lambda>c.
      bind_err (validate_key_set c CASE_KEYS case_path) (\<lambda>_.
      bind_err (require_non_empty_str (dict_get c ''case_id'') (case_path @ ''.case_id''))
        (\<lambda>cid.
      if cid \<in> case_ids
      then Inl (ValueError (''Duplicate case_id in '' @ task_path @ '': '' @ [CHR 0x27] @ cid
                            @ [CHR 0x27]))
      else
      bind_err (require_non_negative_finite_number (dict_get c ''duration_ms'')
                  (case_path @ ''.duration_ms'')) (\<lambda>_.
      (case dict_get c ''error'' of
         JNull \<Rightarrow> Inr (insert cid case_ids, observed_case_failures)
       | JStr m \<Rightarrow> Inr (insert cid case_ids, observed_case_failures + 1)
       | _ \<Rightarrow> Inl (ValueError (case_path @ ''.error must be a string or null''))))))))"

fun validate_cases ::
  "string \<Rightarrow> nat \<Rightarrow> json list \<Rightarrow> string set \<times> nat \<Rightarrow> error + string set \<times> nat" where
  "validate_cases task_path case_index [] st = Inr st"
| "validate_cases task_path case_index (case_item # rest) st =
     bind_err (validate_case task_path case_index case_item st)
       (validate_cases task_path (Suc case_index) rest)"

text \<open>
  The body of the loop over the task results (lines 98 to 162). The state is the set of task
  ids seen, the two sums, the number of tasks with errors and the task map.
\<close>

type_synonym task_state =
  "string set \<times> int \<times> int \<times> int \<times> (string \<times> (string \<times> json) list) list"

definition validate_task :: "string \<Rightarrow> nat \<Rightarrow> json \<Rightarrow> task_state \<Rightarrow> error + task_state" where
  "validate_task source index task_item st =
     (case st of (task_ids, case_totals_sum, case_failures_sum, tasks_with_errors, tmap) \<Rightarrow>
      let task_path = source @ ''.task_results['' @ str_nat index @ '']'' in
      bind_err (require_mapping task_item task_path) (\<lambda>task.
      bind_err (validate_key_set task TASK_KEYS task_path) (\<lambda>_.
      bind_err (require_non_empty_str (dict_get task ''task_id'') (task_path @ ''.task_id''))
        (\<lambda>tid.
      if tid \<in> task_ids
      then Inl (ValueError (''Duplicate task_id in '' @ source @ '': '' @ [CHR 0x27] @ tid
                            @ [CHR 0x27]))
      else
      bind_err (require_non_empty_str (dict_get task ''metric'') (task_path @ ''.metric''))
        (\<lambda>_.
      bind_err (require_non_empty_str (dict_get task ''direction'') (task_path @ ''.direction''))
        (\<lambda>direction.
      if direction \<noteq> ''higher'' \<and> direction \<noteq> ''lower''
      then Inl (ValueError (task_path @ ''.direction must be '' @ [CHR 0x27] @ ''higher''
                            @ [CHR 0x27] @ '' or '' @ [CHR 0x27] @ ''lower'' @ [CHR 0x27]))
      else
      bind_err (require_optional_finite_number (dict_get task ''score'') (task_path @ ''.score''))
        (\<lambda>_.
      bind_err (require_non_negative_int (dict_get task ''cases_total'')
                  (task_path @ ''.cases_total'')) (\<lambda>cases_total.
      bind_err (require_non_negative_int (dict_get task ''case_failures'')
                  (task_path @ ''.case_failures'')) (\<lambda>case_failures.
      if case_failures > cases_total
      then Inl (ValueError (task_path @ ''.case_failures cannot exceed cases_total''))
      else
      bind_err (require_list (dict_get task ''case_results'') (task_path @ ''.case_results''))
        (\<lambda>case_results_raw.
      if int (length case_results_raw) \<noteq> cases_total
      then Inl (ValueError (task_path @ ''.cases_total='' @ str_int cases_total
                            @ '' does not match len(case_results)=''
                            @ str_nat (length case_results_raw)))
      else
      bind_err (validate_cases task_path 0 case_results_raw ({}, 0))
        (\<lambda>(case_ids, observed_case_failures).
      if int observed_case_failures \<noteq> case_failures
      then Inl (ValueError (task_path @ ''.case_failures='' @ str_int case_failures
                            @ '' does not match observed failures ''
                            @ str_nat observed_case_failures))
      else
        Inr (insert tid task_ids, case_totals_sum + cases_total,
             case_failures_sum + case_failures,
             (if case_failures > 0 \<or> dict_get task ''score'' = JNull
              then tasks_with_errors + 1 else tasks_with_errors),
             dict_set tid task tmap))))))))))))"

fun validate_tasks :: "string \<Rightarrow> nat \<Rightarrow> json list \<Rightarrow> task_state \<Rightarrow> error + task_state" where
  "validate_tasks source index [] st = Inr st"
| "validate_tasks source index (task_item # rest) st =
     bind_err (validate_task source index task_item st)
       (validate_tasks source (Suc index) rest)"

text \<open>
  The loop of \<open>_validate_suite_alignment\<close> that collects the case ids of a task of the run
  (lines 274 to 284).
\<close>

fun collect_case_ids :: "string \<Rightarrow> nat \<Rightarrow> json list \<Rightarrow> string set \<Rightarrow> error + string set" where
  "collect_case_ids path index [] run_case_ids = Inr run_case_ids"
| "collect_case_ids path index (case_item # rest) run_case_ids =
     bind_err (require_mapping case_item (path @ ''.case_results['' @ str_nat index @ '']''))
       (\<lambda>c.
     bind_err (require_non_empty_str (dict_get c ''case_id'')
                 (path @ ''.case_results['' @ str_nat index @ ''].case_id'')) (\<lambda>cid.
     collect_case_ids path (Suc index) rest (insert cid run_case_ids)))"

text \<open>
  The body of the loop of \<open>_validate_suite_alignment\<close> over the suite's tasks (lines 245 to
  302). \<open>task_map[task.task_id]\<close> cannot miss after the comparison of the id sets; a miss is
  the \<open>KeyError\<close> of the lookup.
\<close>

definition align_task ::
  "string \<Rightarrow> (string \<times> (string \<times> json) list) list \<Rightarrow> BenchmarkTask \<Rightarrow> error + unit" where
  "align_task source tmap task =
     (let path = source @ ''.task_results['' @ task_id task @ '']'';
          quoted = (\<lambda>s. [CHR 0x27] @ s @ [CHR 0x27])
      in
      case map_of tmap (task_id task) of
        None \<Rightarrow> Inl (ValueError (''KeyError: '' @ quoted (task_id task)))
      | Some run_task_payload \<Rightarrow>
      bind_err (require_non_empty_str (dict_get run_task_payload ''metric'') (path @ ''.metric''))
        (\<lambda>run_metric.
      if run_metric \<noteq> metric task
      then Inl (ValueError (source @ '' task '' @ quoted (task_id task) @ '' metric ''
                            @ quoted run_metric @ '' does not match suite metric ''
                            @ quoted (metric task)))
      else
      bind_err (require_non_empty_str (dict_get run_task_payload ''direction'') (path @ ''.direction''))
        (\<lambda>run_direction.
      bind_err (metric_direction (metric task)) (\<lambda>expected_direction.
      if run_direction \<noteq> expected_direction
      then Inl (ValueError (source @ '' task '' @ quoted (task_id task) @ '' direction ''
                            @ quoted run_direction @ '' does not match expected ''
                            @ quoted expected_direction))
      else
      bind_err (require_list (dict_get run_task_payload ''case_results'') (path @ ''.case_results''))
        (\<lambda>run_case_results.
      bind_err (collect_case_ids path 0 run_case_results {}) (\<lambda>run_case_ids.
      if run_case_ids \<noteq> set (map case_id (cases task))
      then Inl (ValueError (source @ '' task '' @ quoted (task_id task)
                            @ '' case ids do not match suite (missing=''
                            @ repr_str_list
                                (sort (remdups (filter (\<lambda>k. k \<notin> run_case_ids)
                                                  (map case_id (cases task)))))
                            @ '', extra=...)''))
      else
      bind_err (require_non_negative_int (dict_get run_task_payload ''cases_total'')
                  (path @ ''.cases_total'')) (\<lambda>run_cases_total.
      if run_cases_total \<noteq> int (length (cases task))
      then Inl (ValueError (source @ '' task '' @ quoted (task_id task) @ '' cases_total=''
                            @ str_int run_cases_total @ '' does not match suite case count ''
                            @ str_nat (length (cases task))))
      else Inr ())))))))"

fun align_tasks ::
  "string \<Rightarrow> (string \<times> (string \<times> json) list) list \<Rightarrow> BenchmarkTask list \<Rightarrow> error + unit" where
  "align_tasks source tmap [] = Inr ()"
| "align_tasks source tmap (task # rest) =
     bind_err (align_task source tmap task) (\<lambda>_. align_tasks source tmap rest)"

definition validate_suite_alignment ::
  "BenchmarkSuite \<Rightarrow> string \<Rightarrow> string \<Rightarrow> string \<Rightarrow>
   (string \<times> (string \<times> json) list) list \<Rightarrow> error + unit" where
  "validate_suite_alignment suite source suite_name suite_version tmap =
     (let quoted = (\<lambda>s. [CHR 0x27] @ s @ [CHR 0x27]) in
      if suite_name \<noteq> name suite
      then Inl (ValueError (source @ ''.suite_name='' @ quoted suite_name
                            @ '' does not match suite.name='' @ quoted (name suite)))
      else if suite_version \<noteq> version suite
      then Inl (ValueError (source @ ''.suite_version='' @ quoted suite_version
                            @ '' does not match suite.version='' @ quoted (version suite)))
      else if set (map fst tmap) \<noteq> set (map task_id (tasks suite))
      then Inl (ValueError (source @ ''.task_results do not match suite tasks (missing=''
                            @ repr_str_list
                                (sort (remdups (filter (\<lambda>k. k \<notin> set (map fst tmap))
                                                  (map task_id (tasks suite)))))
                            @ '', extra=''
                            @ repr_str_list
                                (sort (remdups (filter
                                   (\<lambda>k. k \<notin> set (map task_id (tasks suite)))
                                   (map fst tmap))))
                            @ '')''))
      else align_tasks source tmap (tasks suite))"

text \<open>
  \<open>validate_run_artifact\<close>. The result is the accepted record, rebuilt from the payload.
\<close>

definition validate_run_artifact ::
  "json \<Rightarrow> string \<Rightarrow> BenchmarkSuite option \<Rightarrow> error + (string \<times> json) list" where
  "validate_run_artifact payload source suite =
     bind_err (require_mapping payload source) (\<lambda>run.
     bind_err (validate_key_set run TOP_LEVEL_KEYS source) (\<lambda>_.
     bind_err (require_non_empty_str (dict_get run ''run_id'') (source @ ''.run_id'')) (\<lambda>_.
     bind_err (require_non_empty_str (dict_get run ''suite_name'') (source @ ''.suite_name''))
       (\<lambda>suite_name.
     bind_err (require_non_empty_str (dict_get run ''suite_version'')
                 (source @ ''.suite_version'')) (\<lambda>suite_version.
     bind_err (require_non_empty_str (dict_get run ''adapter'') (source @ ''.adapter'')) (\<lambda>_.
     bind_err (require_non_empty_str (dict_get run ''started_at'') (source @ ''.started_at''))
       (\<lambda>_.
     bind_err (require_non_empty_str (dict_get run ''finished_at'') (source @ ''.finished_at''))
       (\<lambda>_.
     bind_err (require_mapping (dict_get run ''summary'') (source @ ''.summary'')) (\<lambda>summary.
     bind_err (validate_key_set summary SUMMARY_KEYS (source @ ''.summary'')) (\<lambda>_.
     bind_err (require_non_negative_int (dict_get summary ''tasks_total'')
                 (source @ ''.summary.tasks_total'')) (\<lambda>summary_tasks_total.
     bind_err (require_non_negative_int (dict_get summary ''tasks_with_errors'')
                 (source @ ''.summary.tasks_with_errors'')) (\<lambda>summary_tasks_with_errors.
     bind_err (require_non_negative_int (dict_get summary ''cases_total'')
                 (source @ ''.summary.cases_total'')) (\<lambda>summary_cases_total.
     bind_err (require_non_negative_int (dict_get summary ''case_failures'')
                 (source @ ''.summary.case_failures'')) (\<lambda>summary_case_failures.
     bind_err (require_bool (dict_get summary ''all_cases_succeeded'')
                 (source @ ''.summary.all_cases_succeeded'')) (\<lambda>summary_all_cases_succeeded.
     bind_err (require_list (dict_get run ''task_results'') (source @ ''.task_results''))
       (\<lambda>task_results_raw.
     bind_err (require_mapping (dict_get run ''provenance'') (source @ ''.provenance''))
       (\<lambda>provenance.
     bind_err (validate_tasks source 0 task_results_raw ({}, 0, 0, 0, []))
       (\<lambda>(task_ids, case_totals_sum, case_failures_sum, tasks_with_errors, tmap).
     if summary_tasks_total \<noteq> int (length task_results_raw)
     then Inl (ValueError (source @ ''.summary.tasks_total='' @ str_int summary_tasks_total
                           @ '' does not match len(task_results)=''
                           @ str_nat (length task_results_raw)))
     else if summary_cases_total \<noteq> case_totals_sum
     then Inl (ValueError (source @ ''.summary.cases_total='' @ str_int summary_cases_total
                           @ '' does not match sum(task.cases_total)=''
                           @ str_int case_totals_sum))
     else if summary_case_failures \<noteq> case_failures_sum
     then Inl (ValueError (source @ ''.summary.case_failures='' @ str_int summary_case_failures
                           @ '' does not match sum(task.case_failures)=''
                           @ str_int case_failures_sum))
     else if summary_tasks_with_errors \<noteq> tasks_with_errors
     then Inl (ValueError (source @ ''.summary.tasks_with_errors=''
                           @ str_int summary_tasks_with_errors
                           @ '' does not match observed value '' @ str_int tasks_with_errors))
     else if summary_all_cases_succeeded \<noteq> (summary_case_failures = 0)
     then Inl (ValueError (source @ ''.summary.all_cases_succeeded=''
                           @ str_bool summary_all_cases_succeeded
                           @ '' does not match (case_failures == 0)=''
                           @ str_bool (summary_case_failures = 0)))
     else
     bind_err (case suite of
                 None \<Rightarrow> Inr ()
               | Some s \<Rightarrow> validate_suite_alignment s source suite_name suite_version tmap)
       (\<lambda>_.
     Inr [(''run_id'', dict_get run ''run_id''),
          (''suite_name'', dict_get run ''suite_name''),
          (''suite_version'', dict_get run ''suite_version''),
          (''adapter'', dict_get run ''adapter''),
          (''started_at'', dict_get run ''started_at''),
          (''finished_at'', dict_get run ''finished_at''),
          (''summary'', JObj summary),
          (''task_results'', JList task_results_raw),
          (''provenance'', JObj provenance)])))))))))))))))))))"

text \<open>
  The cross-consistency conditions of a run record, in the words of the specification: what
  a case result and a task result declare, and what the summary must equal.
\<close>

definition case_id_of :: "json \<Rightarrow> string" where
  "case_id_of c =
     (case c of
        JObj d \<Rightarrow> (case dict_get d ''case_id'' of JStr s \<Rightarrow> strip s | _ \<Rightarrow> [])
      | _ \<Rightarrow> [])"

definition has_failure :: "json \<Rightarrow> bool" where
  "has_failure c = (case c of JObj d \<Rightarrow> dict_get d ''error'' \<noteq> JNull | _ \<Rightarrow> False)"

definition int_field :: "json \<Rightarrow> string \<Rightarrow> int" where
  "int_field t k = (case t of JObj d \<Rightarrow> (case dict_get d k of JInt i \<Rightarrow> i | _ \<Rightarrow> 0) | _ \<Rightarrow> 0)"

definition task_has_errors :: "json \<Rightarrow> bool" where
  "task_has_errors t =
     (int_field t ''case_failures'' > 0
      \<or> (case t of JObj d \<Rightarrow> dict_get d ''score'' = JNull | _ \<Rightarrow> False))"

definition task_consistent :: "json \<Rightarrow> bool" where
  "task_consistent t =
     (case t of
        JObj d \<Rightarrow>
          (case (dict_get d ''cases_total'', dict_get d ''case_failures'',
                 dict_get d ''case_results'') of
             (JInt ct, JInt cf, JList cs) \<Rightarrow>
               0 \<le> cf \<and> cf \<le> ct \<and> int (length cs) = ct
               \<and> distinct (map case_id_of cs)
               \<and> int (length (filter has_failure cs)) = cf
           | _ \<Rightarrow> False)
      | _ \<Rightarrow> False)"

definition summary_consistent :: "(string \<times> json) list \<Rightarrow> json list \<Rightarrow> bool" where
  "summary_consistent summary ts =
     (dict_get summary ''tasks_total'' = JInt (int (length ts))
      \<and> dict_get summary ''cases_total'' = JInt (sum_list (map (\<lambda>t. int_field t ''cases_total'') ts))
      \<and> dict_get summary ''case_failures''
          = JInt (sum_list (map (\<lambda>t. int_field t ''case_failures'') ts))
      \<and> dict_get summary ''tasks_with_errors'' = JInt (int (length (filter task_has_errors ts)))
      \<and> dict_get summary ''all_cases_succeeded''
          = JBool (sum_list (map (\<lambda>t. int_field t ''case_failures'') ts) = 0))"

definition cross_consistent :: "json \<Rightarrow> bool" where
  "cross_consistent payload =
     (case payload of
        JObj run \<Rightarrow>
          (case (dict_get run ''summary'', dict_get run ''task_results'') of
             (JObj summary, JList ts) \<Rightarrow>
               list_all task_consistent ts \<and> summary_consistent summary ts
           | _ \<Rightarrow> False)
      | _ \<Rightarrow> False)"

text \<open>Replacing one field of the summary of a run record.\<close>

definition set_summary_field :: "string \<Rightarrow> json \<Rightarrow> json \<Rightarrow> json" where
  "set_summary_field k v payload =
     (case payload of
        JObj run \<Rightarrow>
          (case dict_get run ''summary'' of
             JObj summary \<Rightarrow> JObj (dict_set ''summary'' (JObj (dict_set k v summary)) run)
           | _ \<Rightarrow> payload)
      | _ \<Rightarrow> payload)"

section \<open>Example data\<close>

text \<open>
  The suite of the repository's test fixture (tests/conftest.py), the record a golden run of it
  gives, and a record of a run in which the only case of a one-task suite failed.
\<close>

definition no_float_of_str :: "string \<Rightarrow> real option" where
  "no_float_of_str s = None"

definition counter_rng :: "nat rng_api" where
  "counter_rng = \<lparr>seeded = (\<lambda>s. nat \<bar>s\<bar>), unseeded = (\<lambda>i. 1000 + i),
                   randrange = (\<lambda>g n. (g, g + 1))\<rparr>"


definition case_result_json :: "string \<Rightarrow> json \<Rightarrow> json \<Rightarrow> json \<Rightarrow> json" where
  "case_result_json cid ex pr err =
     JObj [(''case_id'', JStr cid), (''expected'', ex), (''predicted'', pr),
           (''duration_ms'', JNum (1 / 4)), (''error'', err)]"

definition tox_task_dict :: "json \<Rightarrow> int \<Rightarrow> json list \<Rightarrow> (string \<times> json) list" where
  "tox_task_dict score n results =
     [(''task_id'', JStr ''tox_acc''), (''metric'', JStr ''accuracy''),
      (''direction'', JStr ''higher''), (''score'', score),
      (''cases_total'', JInt n), (''case_failures'', JInt 0),
      (''case_results'', JList results)]"


definition tox_task :: BenchmarkTask where
  "tox_task =
     \<lparr>task_id = ''tox_acc'', metric = ''accuracy'', prediction_key = ''toxic'',
      expected_key = ''toxic'', regression_tolerance = 1 / 100, weight = 1,
      positive_label = JInt 1,
      cases =
        [\<lparr>case_id = ''c1'', input = [(''smiles'', JStr ''CCO'')],
          expected = [(''toxic'', JInt 0)], tags = []\<rparr>,
         \<lparr>case_id = ''c2'', input = [(''smiles'', JStr ''N#CCN'')],
          expected = [(''toxic'', JInt 1)], tags = []\<rparr>]\<rparr>"

definition seeded_policy :: StatisticalPolicy where
  "seeded_policy = default_policy\<lparr>bootstrap_resamples := 2, bootstrap_seed := Some 7\<rparr>"







definition fixed_env :: run_env where
  "fixed_env =
     \<lparr>env_run_id = ''0f3c'', env_started_at = ''2026-01-01T00:00:00+00:00'',
      env_finished_at = ''2026-01-01T00:00:01+00:00'',
      env_duration_ms = (\<lambda>task c. 1 / 4)\<rparr>"

text \<open>A suite whose task reads an expected key that its case does not have.\<close>

definition absent_key_suite :: BenchmarkSuite where
  "absent_key_suite =
     \<lparr>name = ''test-suite'', version = ''1.0.0'', description = ''test'',
      tasks =
        [\<lparr>task_id = ''affinity_mae'', metric = ''mae'', prediction_key = ''affinity'',
          expected_key = ''target_affinity'', regression_tolerance = 5 / 100, weight = 1,
          positive_label = JInt 1,
          cases =
            [\<lparr>case_id = ''a'', input = [(''target'', JStr ''KRAS'')],
              expected = [(''affinity'', JNum (- 9))], tags = []\<rparr>]\<rparr>],
      metadata = []\<rparr>"

section \<open>Properties of the metric engine and of the quantile\<close>


lemma f1_counts_eq:
  "f1_counts pl zs (tp, fp, fneg) =
     (tp + length (filter (\<lambda>(ex, pr). py_eq ex pl \<and> py_eq pr pl) zs),
      fp + length (filter (\<lambda>(ex, pr). \<not> py_eq ex pl \<and> py_eq pr pl) zs),
      fneg + length (filter (\<lambda>(ex, pr). py_eq ex pl \<and> \<not> py_eq pr pl) zs))"
  by (induction zs arbitrary: tp fp fneg) (auto simp: Let_def)

text \<open>
  Claim C6. On equal-length, non-empty sequences the \<open>f1\<close> metric is the formula of the
  confusion counts taken by equality with the positive label: 1 when TP = FP = FN = 0, else 0
  when precision + recall is 0, else the harmonic mean 2PR/(P+R), with P = TP/(TP+FP) and
  R = TP/(TP+FN), each 0 on a zero denominator. On expected [1,1,0,0], predicted [1,0,1,0] and
  positive label 1 it is exactly 1/2.
\<close>

theorem f1_metric_formula:
  "(length ev = length pv \<and> ev \<noteq> [] \<longrightarrow>
      compute_metric fs ''f1'' ev pv pl =
        Inr (f1_formula
               (length (filter (\<lambda>(ex, pr). py_eq ex pl \<and> py_eq pr pl) (zip ev pv)))
               (length (filter (\<lambda>(ex, pr). \<not> py_eq ex pl \<and> py_eq pr pl) (zip ev pv)))
               (length (filter (\<lambda>(ex, pr). py_eq ex pl \<and> \<not> py_eq pr pl) (zip ev pv)))))
   \<and> compute_metric fs ''f1'' [JInt 1, JInt 1, JInt 0, JInt 0]
         [JInt 1, JInt 0, JInt 1, JInt 0] (JInt 1) = Inr (1 / 2)"
  by (simp add: compute_metric_def f1_binary_def f1_counts_eq f1_formula_def Let_def)

theorem f1_metric_formula_witness:
  "length [JStr ''y'', JStr ''n'', JStr ''y''] = length [JStr ''y'', JStr ''y'', JBool True]
   \<and> [JStr ''y'', JStr ''n'', JStr ''y''] \<noteq> []
   \<and> compute_metric (\<lambda>s. None) ''f1'' [JStr ''y'', JStr ''n'', JStr ''y'']
        [JStr ''y'', JStr ''y'', JBool True] (JStr ''y'') = Inr (1 / 2)"
  using f1_metric_formula [of "[JStr ''y'', JStr ''n'', JStr ''y'']"
      "[JStr ''y'', JStr ''y'', JBool True]" "\<lambda>s. None" "JStr ''y''"]
  by (simp add: f1_formula_def)

lemma sorted_nth0_Min: "sorted ys \<Longrightarrow> ys \<noteq> [] \<Longrightarrow> ys ! 0 = Min (set ys)"
proof (cases ys)
  case Nil
  assume "ys \<noteq> []"
  with Nil show ?thesis by simp
next
  case (Cons y ys')
  assume "sorted ys"
  with Cons have "\<forall>x \<in> set ys'. y \<le> x" by simp
  then have "Min (insert y (set ys')) = y"
    by (intro Min_eqI) auto
  with Cons show ?thesis by simp
qed

lemma sorted_last_Max: "sorted ys \<Longrightarrow> ys \<noteq> [] \<Longrightarrow> last ys = Max (set ys)"
proof -
  assume s: "sorted ys" and ne: "ys \<noteq> []"
  have "\<And>x. x \<in> set ys \<Longrightarrow> x \<le> last ys"
  proof -
    fix x assume "x \<in> set ys"
    then obtain i where i: "i < length ys" "ys ! i = x" by (auto simp: in_set_conv_nth)
    with s have "ys ! i \<le> ys ! (length ys - 1)"
      by (intro sorted_nth_mono) auto
    with i ne show "x \<le> last ys" by (simp add: last_conv_nth)
  qed
  with ne show ?thesis by (intro Max_eqI [symmetric]) auto
qed

lemma sort_not_Nil: "values \<noteq> [] \<Longrightarrow> sort values \<noteq> ([] :: real list)"
proof
  assume ne: "values \<noteq> []" and "sort values = []"
  then have "length (sort values) = 0" by simp
  then have "length values = 0" by (simp only: length_sort)
  with ne show False by simp
qed

lemma quantile_low: "values \<noteq> [] \<Longrightarrow> p \<le> 0 \<Longrightarrow> quantile values p = Inr (Min (set values))"
  using sorted_nth0_Min [of "sort values"] sort_not_Nil [of "values"] by (simp add: quantile_def Let_def)

lemma quantile_high: "values \<noteq> [] \<Longrightarrow> 1 \<le> p \<Longrightarrow> quantile values p = Inr (Max (set values))"
  using sorted_last_Max [of "sort values"] sort_not_Nil [of "values"] by (simp add: quantile_def Let_def)

lemma quantile_mid:
  assumes ne: "values \<noteq> []" and p: "0 < p" "p < 1"
  shows "nat \<lceil>p * real (length values - 1)\<rceil> < length values \<and>
         quantile values p =
           Inr (sort values ! nat \<lfloor>p * real (length values - 1)\<rfloor>
                + (sort values ! nat \<lceil>p * real (length values - 1)\<rceil>
                   - sort values ! nat \<lfloor>p * real (length values - 1)\<rfloor>)
                  * (p * real (length values - 1) - real_of_int \<lfloor>p * real (length values - 1)\<rfloor>))"
proof -
  define n where "n = length values"
  define pos where "pos = p * real (n - 1)"
  from ne have n: "0 < n" by (simp add: n_def)
  have pos0: "0 \<le> pos" using p by (simp add: pos_def)
  have posle: "pos \<le> real (n - 1)"
    unfolding pos_def using p by (simp add: mult_left_le_one_le)
  have fl0: "0 \<le> \<lfloor>pos\<rfloor>" using pos0 by simp
  have q: "quantile values p =
      Inr (sort values ! nat \<lfloor>pos\<rfloor>
           + (sort values ! min (nat \<lfloor>pos\<rfloor> + 1) (n - 1) - sort values ! nat \<lfloor>pos\<rfloor>)
             * (pos - real (nat \<lfloor>pos\<rfloor>)))"
    using ne p by (simp add: quantile_def Let_def n_def pos_def)
  have rn: "real (nat \<lfloor>pos\<rfloor>) = real_of_int \<lfloor>pos\<rfloor>" using fl0 by simp
  have cl: "\<lceil>pos\<rceil> \<le> int (n - 1)" using posle by (simp add: ceiling_le_iff)
  then have c1: "nat \<lceil>pos\<rceil> < n" using n by linarith
  have "nat \<lceil>pos\<rceil> < n \<and>
        quantile values p =
          Inr (sort values ! nat \<lfloor>pos\<rfloor>
               + (sort values ! nat \<lceil>pos\<rceil> - sort values ! nat \<lfloor>pos\<rfloor>)
                 * (pos - real_of_int \<lfloor>pos\<rfloor>))"
  proof (cases "pos = real_of_int \<lfloor>pos\<rfloor>")
    case True
    then have "\<lceil>pos\<rceil> = \<lfloor>pos\<rfloor>" by (simp add: ceiling_altdef)
    with True q rn c1 show ?thesis by simp
  next
    case False
    then have ce: "\<lceil>pos\<rceil> = \<lfloor>pos\<rfloor> + 1" by (simp add: ceiling_altdef)
    with cl fl0 have "min (nat \<lfloor>pos\<rfloor> + 1) (n - 1) = nat \<lceil>pos\<rceil>" by linarith
    with q rn c1 show ?thesis by simp
  qed
  then show ?thesis unfolding pos_def n_def .
qed

text \<open>
  Claim C7. \<open>_quantile\<close> raises on the empty list; it clamps the probability into [0,1]
  (a probability at or below 0 gives the minimum, at or above 1 the maximum); in between it
  interpolates linearly between the floor and the ceiling order statistics of the position
  p * (n - 1). On [0,1,2,3,4] it gives 2 at 1/2, 0 at 0 and 4 at 1.
\<close>

theorem quantile_spec:
  "quantile [] p = Inl (ValueError ''Cannot compute quantile on empty values'')
   \<and> quantile values p = quantile values (max 0 (min 1 p))
   \<and> (values \<noteq> [] \<and> p \<le> 0 \<longrightarrow> quantile values p = Inr (Min (set values)))
   \<and> (values \<noteq> [] \<and> 1 \<le> p \<longrightarrow> quantile values p = Inr (Max (set values)))
   \<and> (values \<noteq> [] \<and> 0 < p \<and> p < 1 \<longrightarrow>
        nat \<lceil>p * real (length values - 1)\<rceil> < length values \<and>
        quantile values p =
          Inr (sort values ! nat \<lfloor>p * real (length values - 1)\<rfloor>
               + (sort values ! nat \<lceil>p * real (length values - 1)\<rceil>
                  - sort values ! nat \<lfloor>p * real (length values - 1)\<rfloor>)
                 * (p * real (length values - 1)
                    - real_of_int \<lfloor>p * real (length values - 1)\<rfloor>)))
   \<and> quantile [0, 1, 2, 3, 4] (1 / 2) = Inr 2
   \<and> quantile [0, 1, 2, 3, 4] 0 = Inr 0
   \<and> quantile [0, 1, 2, 3, 4] 1 = Inr 4"
proof -
  have clamp: "quantile values p = quantile values (max 0 (min 1 p))"
    by (simp add: quantile_def Let_def max_def min_def)
  have e1: "quantile [0, 1, 2, 3, 4] (1 / 2) = Inr 2"
    by (simp add: quantile_def Let_def)
  have e2: "quantile [0, 1, 2, 3, 4] 0 = Inr 0"
    by (simp add: quantile_def Let_def)
  have e3: "quantile [0, 1, 2, 3, 4] 1 = Inr 4"
    by (simp add: quantile_def Let_def)
  have e0: "quantile [] p = Inl (ValueError ''Cannot compute quantile on empty values'')"
    by (simp add: quantile_def)
  from clamp e0 e1 e2 e3 quantile_low [of "values" p] quantile_high [of "values" p]
    quantile_mid [of "values" p]
  show ?thesis by blast
qed

theorem quantile_spec_witness:
  "quantile [3, 1, 2] (1 / 4) = Inr (3 / 2) \<and> quantile [3, 1, 2] (-1) = Inr 1
   \<and> quantile [3, 1, 2] 7 = Inr 3"
proof -
  have mid: "quantile [3, 1, 2] (1 / 4) = Inr (3 / 2)"
    using quantile_spec [of "1 / 4" "[3, 1, 2]"] by simp
  have low: "quantile [3, 1, 2] (-1) = Inr 1"
    using quantile_spec [of "-1" "[3, 1, 2]", THEN conjunct2, THEN conjunct2, THEN conjunct1]
    by simp
  have high: "quantile [3, 1, 2] 7 = Inr 3"
    using quantile_spec [of "7" "[3, 1, 2]", THEN conjunct2, THEN conjunct2, THEN conjunct2,
        THEN conjunct1]
    by simp
  from mid low high show ?thesis by simp
qed

section \<open>Properties of the comparison engine\<close>


lemma resample_loop_length:
  "resample_loop fs R m d pl pairs thr k g samples hits = Some (samples', hits') \<Longrightarrow>
   length samples' = length samples + k"
proof (induction k arbitrary: g samples hits)
  case 0
  then show ?case by simp
next
  case (Suc k)
  then show ?case
    by (auto simp: Let_def split: prod.splits sum.splits)
qed

lemma quantile_nonempty: "values \<noteq> [] \<Longrightarrow> \<exists>q. quantile values p = Inr q"
  by (simp add: quantile_def Let_def)

lemma bootstrap_regression_stats_no_error:
  "\<exists>r. bootstrap_regression_stats fs R m d pl pairs thr resamples cl g = Inr r"
proof (cases "length pairs < 2 \<or> resamples \<le> 0")
  case True
  then show ?thesis by (simp add: bootstrap_regression_stats_def)
next
  case False
  show ?thesis
  proof (cases "resample_loop fs R m d pl pairs thr (nat resamples) g [] 0")
    case None
    with False show ?thesis by (simp add: bootstrap_regression_stats_def)
  next
    case (Some a)
    obtain samples hits where a: "a = (samples, hits)" by (cases a)
    from Some a have "length samples = nat resamples"
      using resample_loop_length [of fs R m d pl pairs thr "nat resamples" g "[]" 0 samples hits]
      by simp
    with False have ne: "samples \<noteq> []" by auto
    from quantile_nonempty [OF ne] obtain lo where lo: "quantile samples ((1 - cl) / 2) = Inr lo"
      by blast
    from quantile_nonempty [OF ne] obtain hi where hi: "quantile samples (1 - (1 - cl) / 2) = Inr hi"
      by blast
    from False Some a lo hi show ?thesis
      by (simp add: bootstrap_regression_stats_def Let_def)
  qed
qed










lemma enumerate_nth_snd: "j < length xs \<Longrightarrow> enumerate n xs ! j = (n + j, xs ! j)"
  by (simp add: nth_enumerate_eq)


























text \<open>
  Claim C2. For a task compared with bootstrap enabled and both scores present: with fewer
  than 2 paired cases the bootstrap is skipped (no CI), a point-estimate pass is kept and a
  point-estimate regression becomes \<open>uncertain\<close>; with at least 2 paired cases and all
  resampled scores computed, the CI bounds are the two quantiles of the samples and the status
  is \<open>pass\<close> when the regression amount is within the threshold, \<open>regression\<close> when it
  exceeds it and CI-low is above the threshold, \<open>pass\<close> when it exceeds it and CI-high is
  within the threshold, and \<open>uncertain\<close> otherwise.
\<close>

theorem bootstrap_status_classification:
  assumes d: "metric_direction (metric task) = Inr d"
    and bt: "map_of bm (task_id task) = Some bt"
    and ct: "map_of cm (task_id task) = Some ct"
    and b: "extract_score fs (Some bt) = Some bs"
    and c: "extract_score fs (Some ct) = Some cs"
    and en: "bootstrap_enabled pol"
    and thr: "thr = max (regression_tolerance task) (min_effect_size pol)"
    and ra: "ra = (if d = ''lower'' then cs - bs else - (cs - bs))"
    and g: "g = (case seed_for_task (bootstrap_seed pol) i of
                   None \<Rightarrow> unseeded R i | Some s \<Rightarrow> seeded R s)"
  shows "\<exists>tc r' u'.
           compare_step fs R pol bm cm (i, task) (acc, r, u) = Inr (acc @ [tc], r', u')
         \<and> tc_regression_amount tc = Some ra \<and> tc_threshold tc = thr
         \<and> (length (paired_cases bt ct) < 2 \<longrightarrow>
               tc_ci_low tc = None \<and> tc_ci_high tc = None \<and> tc_p_regression tc = None
             \<and> tc_status tc = (if ra \<le> thr then ''pass'' else ''uncertain''))
         \<and> (2 \<le> length (paired_cases bt ct) \<longrightarrow>
               (\<forall>samples hits.
                  resample_loop fs R (metric task) d (positive_label task) (paired_cases bt ct)
                    thr (nat (bootstrap_resamples pol)) g [] 0 = Some (samples, hits) \<longrightarrow>
                  (\<exists>lo hi.
                     quantile samples ((1 - confidence_level pol) / 2) = Inr lo
                   \<and> quantile samples (1 - (1 - confidence_level pol) / 2) = Inr hi
                   \<and> tc_ci_low tc = Some lo \<and> tc_ci_high tc = Some hi
                   \<and> tc_p_regression tc = Some (real hits / real (length samples))
                   \<and> tc_status tc =
                       (if ra \<le> thr then ''pass''
                        else if lo > thr then ''regression''
                        else if hi \<le> thr then ''pass''
                        else ''uncertain''))))"
proof -
  define pairs where "pairs = paired_cases bt ct"
  from en have en': "0 < bootstrap_resamples pol" by (simp add: bootstrap_enabled_def)
  obtain st where st:
    "bootstrap_regression_stats fs R (metric task) d (positive_label task) pairs thr
       (bootstrap_resamples pol) (confidence_level pol) g = Inr st"
    using bootstrap_regression_stats_no_error
      [of fs R "metric task" d "positive_label task" pairs thr "bootstrap_resamples pol"
        "confidence_level pol" g]
    by (elim exE)
  have small: "st = None" if "length pairs < 2"
    using st that by (simp add: bootstrap_regression_stats_def)
  have big: "\<exists>lo hi. quantile samples ((1 - confidence_level pol) / 2) = Inr lo
                   \<and> quantile samples (1 - (1 - confidence_level pol) / 2) = Inr hi
                   \<and> st = Some (lo, hi, real hits / real (length samples))"
    if "2 \<le> length pairs"
      and "resample_loop fs R (metric task) d (positive_label task) pairs thr
             (nat (bootstrap_resamples pol)) g [] 0 = Some (samples, hits)"
    for samples hits
    using st that en'
    by (auto simp: bootstrap_regression_stats_def Let_def split: sum.splits)
  have step: "\<exists>tc r' u'.
      compare_step fs R pol bm cm (i, task) (acc, r, u) = Inr (acc @ [tc], r', u')
      \<and> tc_regression_amount tc = Some ra \<and> tc_threshold tc = thr
      \<and> (st = None \<longrightarrow>
            tc_ci_low tc = None \<and> tc_ci_high tc = None \<and> tc_p_regression tc = None
          \<and> tc_status tc = (if ra \<le> thr then ''pass'' else ''uncertain''))
      \<and> (\<forall>lo hi p. st = Some (lo, hi, p) \<longrightarrow>
            tc_ci_low tc = Some lo \<and> tc_ci_high tc = Some hi \<and> tc_p_regression tc = Some p
          \<and> tc_status tc =
              (if ra \<le> thr then ''pass''
               else if lo > thr then ''regression''
               else if hi \<le> thr then ''pass''
               else ''uncertain''))"
    using d bt ct b c en st [unfolded pairs_def thr g] thr ra
    by (cases st) (auto simp: compare_step_def Let_def split: prod.splits)
  then obtain tc r' u' where
    s1: "compare_step fs R pol bm cm (i, task) (acc, r, u) = Inr (acc @ [tc], r', u')"
    and s2: "tc_regression_amount tc = Some ra" "tc_threshold tc = thr"
    and s3: "st = None \<longrightarrow>
            tc_ci_low tc = None \<and> tc_ci_high tc = None \<and> tc_p_regression tc = None
          \<and> tc_status tc = (if ra \<le> thr then ''pass'' else ''uncertain'')"
    and s4: "\<forall>lo hi p. st = Some (lo, hi, p) \<longrightarrow>
            tc_ci_low tc = Some lo \<and> tc_ci_high tc = Some hi \<and> tc_p_regression tc = Some p
          \<and> tc_status tc =
              (if ra \<le> thr then ''pass''
               else if lo > thr then ''regression''
               else if hi \<le> thr then ''pass''
               else ''uncertain'')"
    by blast
  have c1: "length pairs < 2 \<longrightarrow>
               tc_ci_low tc = None \<and> tc_ci_high tc = None \<and> tc_p_regression tc = None
             \<and> tc_status tc = (if ra \<le> thr then ''pass'' else ''uncertain'')"
    using small s3 by blast
  have c2: "2 \<le> length pairs \<longrightarrow>
               (\<forall>samples hits.
                  resample_loop fs R (metric task) d (positive_label task) pairs
                    thr (nat (bootstrap_resamples pol)) g [] 0 = Some (samples, hits) \<longrightarrow>
                  (\<exists>lo hi.
                     quantile samples ((1 - confidence_level pol) / 2) = Inr lo
                   \<and> quantile samples (1 - (1 - confidence_level pol) / 2) = Inr hi
                   \<and> tc_ci_low tc = Some lo \<and> tc_ci_high tc = Some hi
                   \<and> tc_p_regression tc = Some (real hits / real (length samples))
                   \<and> tc_status tc =
                       (if ra \<le> thr then ''pass''
                        else if lo > thr then ''regression''
                        else if hi \<le> thr then ''pass''
                        else ''uncertain'')))"
  proof (intro impI allI)
    fix samples hits
    assume "2 \<le> length pairs"
      and "resample_loop fs R (metric task) d (positive_label task) pairs thr
             (nat (bootstrap_resamples pol)) g [] 0 = Some (samples, hits)"
    from big [OF this] obtain lo hi where
      q: "quantile samples ((1 - confidence_level pol) / 2) = Inr lo"
         "quantile samples (1 - (1 - confidence_level pol) / 2) = Inr hi"
      and e: "st = Some (lo, hi, real hits / real (length samples))" by blast
    from s4 e have "tc_ci_low tc = Some lo \<and> tc_ci_high tc = Some hi
          \<and> tc_p_regression tc = Some (real hits / real (length samples))
          \<and> tc_status tc =
              (if ra \<le> thr then ''pass''
               else if lo > thr then ''regression''
               else if hi \<le> thr then ''pass''
               else ''uncertain'')" by blast
    with q show "\<exists>lo hi.
                     quantile samples ((1 - confidence_level pol) / 2) = Inr lo
                   \<and> quantile samples (1 - (1 - confidence_level pol) / 2) = Inr hi
                   \<and> tc_ci_low tc = Some lo \<and> tc_ci_high tc = Some hi
                   \<and> tc_p_regression tc = Some (real hits / real (length samples))
                   \<and> tc_status tc =
                       (if ra \<le> thr then ''pass''
                        else if lo > thr then ''regression''
                        else if hi \<le> thr then ''pass''
                        else ''uncertain'')" by blast
  qed
  from s1 s2 c1 c2 show ?thesis unfolding pairs_def by blast
qed



lemma paired_tox_two:
  "paired_cases
     (tox_task_dict s1 2 [case_result_json ''c1'' (JInt 0) (JInt 0) JNull,
                          case_result_json ''c2'' (JInt 1) (JInt 1) JNull])
     (tox_task_dict s2 2 [case_result_json ''c1'' (JInt 0) (JInt 0) JNull,
                          case_result_json ''c2'' (JInt 1) (JInt 0) JNull])
   = [(JInt 0, JInt 0, JInt 0, JInt 0), (JInt 1, JInt 1, JInt 1, JInt 0)]"
  by (simp add: paired_cases_def case_map_def tox_task_dict_def case_result_json_def dict_get_def Let_def)

lemma paired_tox_one:
  "paired_cases
     (tox_task_dict s1 1 [case_result_json ''c1'' (JInt 0) (JInt 0) JNull])
     (tox_task_dict s2 1 [case_result_json ''c1'' (JInt 0) (JInt 1) JNull])
   = [(JInt 0, JInt 0, JInt 0, JInt 1)]"
  by (simp add: paired_cases_def case_map_def tox_task_dict_def case_result_json_def dict_get_def Let_def)

lemma mod_Suc_Suc_0: "(k :: nat) mod Suc (Suc 0) = k mod 2"
  by (simp add: numeral_2_eq_2)

lemma resample_tox:
  "resample_loop no_float_of_str counter_rng ''accuracy'' ''higher'' (JInt 1)
     [(JInt 0, JInt 0, JInt 0, JInt 0), (JInt 1, JInt 1, JInt 1, JInt 0)] (1 / 100)
     (Suc (Suc 0)) 8 [] 0
   = Some ([1 / 2, 1 / 2], 2)"
  by (simp add: compute_metric_def py_randrange_def counter_rng_def mod_Suc_Suc_0 Let_def)


lemma quantile_half_half: "quantile [1 / 2, 1 / 2] p = Inr (1 / 2)"
  by (simp add: quantile_def Let_def)

theorem bootstrap_status_classification_witness:
  "metric_direction (metric tox_task) = Inr ''higher''
   \<and> bootstrap_enabled seeded_policy
   \<and> (\<exists>tc r' u'.
         compare_step no_float_of_str counter_rng seeded_policy
           [(''tox_acc'', tox_task_dict (JNum 1) 2
               [case_result_json ''c1'' (JInt 0) (JInt 0) JNull, case_result_json ''c2'' (JInt 1) (JInt 1) JNull])]
           [(''tox_acc'', tox_task_dict (JNum (1 / 2)) 2
               [case_result_json ''c1'' (JInt 0) (JInt 0) JNull, case_result_json ''c2'' (JInt 1) (JInt 0) JNull])]
           (1, tox_task) ([], 0, 0) = Inr ([tc], r', u')
       \<and> tc_ci_low tc = Some (1 / 2) \<and> tc_ci_high tc = Some (1 / 2)
       \<and> tc_p_regression tc = Some 1 \<and> tc_status tc = ''regression'')
   \<and> (\<exists>tc r' u'.
         compare_step no_float_of_str counter_rng seeded_policy
           [(''tox_acc'', tox_task_dict (JNum 1) 1 [case_result_json ''c1'' (JInt 0) (JInt 0) JNull])]
           [(''tox_acc'', tox_task_dict (JNum 0) 1 [case_result_json ''c1'' (JInt 0) (JInt 1) JNull])]
           (1, tox_task) ([], 0, 0) = Inr ([tc], r', u')
       \<and> tc_ci_low tc = None \<and> tc_status tc = ''uncertain'')"
proof -
  have d: "metric_direction (metric tox_task) = Inr ''higher''"
    by (simp add: metric_direction_def metric_directions_def tox_task_def)
  have en: "bootstrap_enabled seeded_policy"
    by (simp add: bootstrap_enabled_def seeded_policy_def)
  have g: "(8 :: nat) = (case seed_for_task (bootstrap_seed seeded_policy) 1 of
                   None \<Rightarrow> unseeded counter_rng 1 | Some s \<Rightarrow> seeded counter_rng s)"
    by (simp add: seed_for_task_def seeded_policy_def counter_rng_def)
  have thr: "(1 / 100 :: real) = max (regression_tolerance tox_task) (min_effect_size seeded_policy)"
    by (simp add: tox_task_def seeded_policy_def default_policy_def)
  have n: "nat (bootstrap_resamples seeded_policy) = Suc (Suc 0)"
    by (simp add: seeded_policy_def)
  have pl: "positive_label tox_task = JInt 1" "metric tox_task = ''accuracy''"
    "task_id tox_task = ''tox_acc''"
    by (simp_all add: tox_task_def)
  have sc: "extract_score no_float_of_str (Some (tox_task_dict (JNum x) k cs)) = Some x" for x k cs
    by (simp add: extract_score_def tox_task_dict_def dict_get_def)
  have ra1: "(1 / 2 :: real) = (if ''higher'' = ''lower'' then 1 / 2 - 1 else - (1 / 2 - 1))"
    by simp
  have ra2: "(1 :: real) = (if ''higher'' = ''lower'' then 0 - 1 else - (0 - 1))"
    by simp
  let ?b2 = "tox_task_dict (JNum 1) 2
               [case_result_json ''c1'' (JInt 0) (JInt 0) JNull,
                case_result_json ''c2'' (JInt 1) (JInt 1) JNull]"
  let ?c2 = "tox_task_dict (JNum (1 / 2)) 2
               [case_result_json ''c1'' (JInt 0) (JInt 0) JNull,
                case_result_json ''c2'' (JInt 1) (JInt 0) JNull]"
  let ?b1 = "tox_task_dict (JNum 1) 1 [case_result_json ''c1'' (JInt 0) (JInt 0) JNull]"
  let ?c1 = "tox_task_dict (JNum 0) 1 [case_result_json ''c1'' (JInt 0) (JInt 1) JNull]"
  have m: "map_of [(''tox_acc'', x)] (task_id tox_task) = Some x" for x :: "(string \<times> json) list"
    by (simp add: pl)
  from bootstrap_status_classification
    [OF d m [of ?b2] m [of ?c2] sc sc en thr ra1 g, of "[]" 0 0]
  obtain tc r' u' where
    step: "compare_step no_float_of_str counter_rng seeded_policy [(''tox_acc'', ?b2)]
             [(''tox_acc'', ?c2)] (1, tox_task) ([], 0, 0) = Inr ([] @ [tc], r', u')"
    and big: "2 \<le> length (paired_cases ?b2 ?c2) \<longrightarrow>
               (\<forall>samples hits.
                  resample_loop no_float_of_str counter_rng (metric tox_task) ''higher''
                    (positive_label tox_task) (paired_cases ?b2 ?c2)
                    (1 / 100) (nat (bootstrap_resamples seeded_policy)) 8 [] 0
                    = Some (samples, hits) \<longrightarrow>
                  (\<exists>lo hi.
                     quantile samples ((1 - confidence_level seeded_policy) / 2) = Inr lo
                   \<and> quantile samples (1 - (1 - confidence_level seeded_policy) / 2) = Inr hi
                   \<and> tc_ci_low tc = Some lo \<and> tc_ci_high tc = Some hi
                   \<and> tc_p_regression tc = Some (real hits / real (length samples))
                   \<and> tc_status tc =
                       (if (1 / 2 :: real) \<le> 1 / 100 then ''pass''
                        else if lo > 1 / 100 then ''regression''
                        else if hi \<le> 1 / 100 then ''pass''
                        else ''uncertain'')))"
    by blast
  have len: "2 \<le> length (paired_cases ?b2 ?c2)" by (simp add: paired_tox_two)
  have rs: "resample_loop no_float_of_str counter_rng (metric tox_task) ''higher''
              (positive_label tox_task) (paired_cases ?b2 ?c2)
              (1 / 100) (nat (bootstrap_resamples seeded_policy)) 8 [] 0
            = Some ([1 / 2, 1 / 2], 2)"
    by (simp only: pl paired_tox_two n resample_tox)
  from big len rs obtain lo hi where
    q: "quantile [1 / 2, 1 / 2] ((1 - confidence_level seeded_policy) / 2) = Inr lo"
       "quantile [1 / 2, 1 / 2] (1 - (1 - confidence_level seeded_policy) / 2) = Inr hi"
    and t: "tc_ci_low tc = Some lo" "tc_ci_high tc = Some hi"
       "tc_p_regression tc = Some (real 2 / real (length [1 / 2 :: real, 1 / 2]))"
       "tc_status tc =
                       (if (1 / 2 :: real) \<le> 1 / 100 then ''pass''
                        else if lo > 1 / 100 then ''regression''
                        else if hi \<le> 1 / 100 then ''pass''
                        else ''uncertain'')"
    by blast
  from q have "lo = 1 / 2" "hi = 1 / 2" by (simp_all add: quantile_half_half)
  with t have "tc_ci_low tc = Some (1 / 2) \<and> tc_ci_high tc = Some (1 / 2)
       \<and> tc_p_regression tc = Some 1 \<and> tc_status tc = ''regression''"
    by simp
  with step have first: "\<exists>tc r' u'.
         compare_step no_float_of_str counter_rng seeded_policy [(''tox_acc'', ?b2)]
           [(''tox_acc'', ?c2)] (1, tox_task) ([], 0, 0) = Inr ([tc], r', u')
       \<and> tc_ci_low tc = Some (1 / 2) \<and> tc_ci_high tc = Some (1 / 2)
       \<and> tc_p_regression tc = Some 1 \<and> tc_status tc = ''regression''"
    by auto
  from bootstrap_status_classification
    [OF d m [of ?b1] m [of ?c1] sc sc en thr ra2 g, of "[]" 0 0]
  obtain tc1 r1 u1 where
    step1: "compare_step no_float_of_str counter_rng seeded_policy [(''tox_acc'', ?b1)]
             [(''tox_acc'', ?c1)] (1, tox_task) ([], 0, 0) = Inr ([] @ [tc1], r1, u1)"
    and small: "length (paired_cases ?b1 ?c1) < 2 \<longrightarrow>
               tc_ci_low tc1 = None \<and> tc_ci_high tc1 = None \<and> tc_p_regression tc1 = None
             \<and> tc_status tc1 = (if (1 :: real) \<le> 1 / 100 then ''pass'' else ''uncertain'')"
    by blast
  have "length (paired_cases ?b1 ?c1) < 2" by (simp add: paired_tox_one)
  with small have "tc_ci_low tc1 = None \<and> tc_status tc1 = ''uncertain''" by simp
  with step1 have second: "\<exists>tc r' u'.
         compare_step no_float_of_str counter_rng seeded_policy [(''tox_acc'', ?b1)]
           [(''tox_acc'', ?c1)] (1, tox_task) ([], 0, 0) = Inr ([tc], r', u')
       \<and> tc_ci_low tc = None \<and> tc_status tc = ''uncertain''"
    by auto
  from d en first second show ?thesis by blast
qed

section \<open>Properties of the runner\<close>

lemma run_cases_lengths:
  "run_cases adapter env task cs (evs0, pvs0, crs0, n0) = (evs, pvs, crs, n) \<Longrightarrow>
   length evs0 = length pvs0 \<Longrightarrow>
   length evs = length pvs \<and> set (zip evs0 pvs0) \<subseteq> set (zip evs pvs)"
proof (induction cs arbitrary: evs0 pvs0 crs0 n0)
  case Nil
  then show ?case by simp
next
  case (Cons c cs)
  show ?case
  proof (cases "predict adapter task c")
    case (Inl exc)
    with Cons.prems Cons.IH show ?thesis by (simp add: Let_def)
  next
    case (Inr out)
    show ?thesis
    proof (cases "map_of out (prediction_key task)")
      case None
      with Inr Cons.prems Cons.IH show ?thesis by (simp add: Let_def)
    next
      case (Some p)
      with Inr Cons.prems have r: "run_cases adapter env task cs
          (evs0 @ [dict_get (expected c) (expected_key task)], pvs0 @ [p],
           crs0 @ [\<lparr>cr_case_id = case_id c,
                     cr_expected = dict_get (expected c) (expected_key task), cr_predicted = p,
                     cr_duration_ms = env_duration_ms env task c, cr_error = None\<rparr>], n0)
          = (evs, pvs, crs, n)"
        by (simp add: Let_def)
      from Cons.IH [OF r] Cons.prems(2)
      have "length evs = length pvs
            \<and> set (zip (evs0 @ [dict_get (expected c) (expected_key task)]) (pvs0 @ [p]))
                \<subseteq> set (zip evs pvs)" by simp
      with Cons.prems(2) show ?thesis by auto
    qed
  qed
qed

lemma run_cases_member:
  assumes "c \<in> set cs" and "case_succeeds adapter task c predicted"
    and "run_cases adapter env task cs (evs0, pvs0, crs0, n0) = (evs, pvs, crs, n)"
    and "length evs0 = length pvs0"
  shows "(dict_get (expected c) (expected_key task), predicted) \<in> set (zip evs pvs)"
  using assms
proof (induction cs arbitrary: evs0 pvs0 crs0 n0)
  case Nil
  then show ?case by simp
next
  case (Cons c' cs)
  show ?case
  proof (cases "predict adapter task c'")
    case (Inl exc)
    with Cons.prems have "c \<in> set cs" by (auto simp: case_succeeds_def)
    with Inl Cons.prems Cons.IH show ?thesis by (simp add: Let_def)
  next
    case (Inr out)
    show ?thesis
    proof (cases "map_of out (prediction_key task)")
      case None
      with Inr Cons.prems have "c \<in> set cs" by (auto simp: case_succeeds_def)
      with None Inr Cons.prems Cons.IH show ?thesis by (simp add: Let_def)
    next
      case (Some p)
      with Inr Cons.prems have r: "run_cases adapter env task cs
          (evs0 @ [dict_get (expected c') (expected_key task)], pvs0 @ [p],
           crs0 @ [\<lparr>cr_case_id = case_id c',
                     cr_expected = dict_get (expected c') (expected_key task), cr_predicted = p,
                     cr_duration_ms = env_duration_ms env task c', cr_error = None\<rparr>], n0)
          = (evs, pvs, crs, n)"
        by (simp add: Let_def)
      show ?thesis
      proof (cases "c = c'")
        case True
        with Cons.prems(2) Inr Some have "predicted = p" by (simp add: case_succeeds_def)
        moreover from run_cases_lengths [OF r] Cons.prems(4)
        have "set (zip (evs0 @ [dict_get (expected c') (expected_key task)]) (pvs0 @ [p]))
                \<subseteq> set (zip evs pvs)" by simp
        ultimately show ?thesis using True Cons.prems(4) by auto
      next
        case False
        with Cons.prems have "c \<in> set cs" by simp
        from Cons.IH [OF this Cons.prems(2) r] Cons.prems(4) show ?thesis by simp
      qed
    qed
  qed
qed

lemma to_float_list_fails:
  "x \<in> set xs \<Longrightarrow> py_float fs x = None \<Longrightarrow> \<exists>e. to_float_list fs xs = Inl e"
  by (induction xs) (auto split: option.splits sum.splits)

lemma compute_metric_non_numeric:
  assumes m: "metric_name = ''mae'' \<or> metric_name = ''rmse''"
    and z: "(ex, pr) \<in> set (zip evs pvs)"
    and "length evs = length pvs"
    and bad: "py_float fs ex = None \<or> py_float fs pr = None"
  shows "\<exists>e. compute_metric fs metric_name evs pvs pl = Inl e"
proof -
  from z have mem: "ex \<in> set evs" "pr \<in> set pvs"
    by (auto dest: set_zip_leftD set_zip_rightD)
  then have ne: "evs \<noteq> []" by auto
  show ?thesis
  proof (cases "to_float_list fs evs")
    case (Inl e)
    with m ne assms(3) show ?thesis by (auto simp: compute_metric_def)
  next
    case (Inr xs)
    with to_float_list_fails [OF mem(1), of fs] have "py_float fs ex \<noteq> None" by auto
    with bad have "py_float fs pr = None" by simp
    from to_float_list_fails [OF mem(2) this] obtain e where "to_float_list fs pvs = Inl e"
      by blast
    with Inr m ne assms(3) show ?thesis by (auto simp: compute_metric_def)
  qed
qed



lemma run_task_aborts:
  assumes m: "metric task = ''mae'' \<or> metric task = ''rmse''"
    and c: "c \<in> set (cases task)"
    and s: "case_succeeds adapter task c predicted"
    and bad: "py_float fs (dict_get (expected c) (expected_key task)) = None
              \<or> py_float fs predicted = None"
  shows "\<exists>e. run_task fs adapter env task = Inl e"
proof -
  obtain evs pvs crs n where
    r: "run_cases adapter env task (cases task) ([], [], [], 0) = (evs, pvs, crs, n)"
    by (cases "run_cases adapter env task (cases task) ([], [], [], 0)") auto
  from run_cases_member [OF c s r] have z:
    "(dict_get (expected c) (expected_key task), predicted) \<in> set (zip evs pvs)" by simp
  from run_cases_lengths [OF r] have l: "length evs = length pvs" by simp
  from z have ne: "evs \<noteq> []" by auto
  from compute_metric_non_numeric [OF m z l bad, of "positive_label task"]
  obtain e where "compute_metric fs (metric task) evs pvs (positive_label task) = Inl e"
    by blast
  with r ne show ?thesis by (simp add: run_task_def)
qed

lemma run_tasks_aborts:
  assumes "task \<in> set ts" and "\<exists>e. run_task fs adapter env task = Inl e"
  shows "\<exists>e. run_tasks fs adapter env ts st = Inl e"
  using assms
proof (induction ts arbitrary: st)
  case Nil
  then show ?case by simp
next
  case (Cons t ts)
  obtain trs ct cf twe where st: "st = (trs, ct, cf, twe)" by (cases st)
  show ?case
  proof (cases "run_task fs adapter env t")
    case (Inl e)
    with st show ?thesis by simp
  next
    case (Inr result)
    with Cons.prems have "task \<in> set ts" by auto
    from Cons.IH [OF this Cons.prems(2)] Inr st show ?thesis by simp
  qed
qed

text \<open>
  Claim C9. Only failures of the prediction source and missing prediction keys are isolated
  as case failures. When a task's metric is \<open>mae\<close> or \<open>rmse\<close> and one of its cases succeeds
  with an expected or predicted value that \<open>float\<close> rejects (a null expected value of an
  absent expected key, for one), the metric raises and \<open>run_benchmark\<close> raises with it: no
  run record is produced.
\<close>

theorem run_benchmark_aborts_on_non_numeric:
  assumes "task \<in> set (tasks suite)"
    and "metric task = ''mae'' \<or> metric task = ''rmse''"
    and "c \<in> set (cases task)"
    and "case_succeeds adapter task c predicted"
    and "py_float fs (dict_get (expected c) (expected_key task)) = None
         \<or> py_float fs predicted = None"
  shows "\<exists>e. run_benchmark fs env suite adapter provenance = Inl e"
proof -
  from run_task_aborts [OF assms(2-5)] have "\<exists>e. run_task fs adapter env task = Inl e" .
  from run_tasks_aborts [OF assms(1) this, of "([], 0, 0, 0)"]
  show ?thesis by (auto simp: run_benchmark_def)
qed

theorem run_benchmark_aborts_on_non_numeric_witness:
  "run_benchmark no_float_of_str fixed_env absent_key_suite GoldenAdapter None
   = Inl (ValueError ''Expected numeric value, got ...'')"
proof -
  let ?c = "\<lparr>case_id = ''a'', input = [(''target'', JStr ''KRAS'')],
             expected = [(''affinity'', JNum (- 9))], tags = []\<rparr>"
  let ?t = "\<lparr>task_id = ''affinity_mae'', metric = ''mae'', prediction_key = ''affinity'',
             expected_key = ''target_affinity'', regression_tolerance = 5 / 100, weight = 1,
             positive_label = JInt 1, cases = [?c]\<rparr>"
  have 1: "?t \<in> set (tasks absent_key_suite)" by (simp add: absent_key_suite_def)
  have 2: "metric ?t = ''mae'' \<or> metric ?t = ''rmse''" by simp
  have 3: "?c \<in> set (cases ?t)" by simp
  have 4: "case_succeeds GoldenAdapter ?t ?c (JNum (- 9))"
    by (simp add: case_succeeds_def GoldenAdapter_def)
  have 5: "py_float no_float_of_str (dict_get (expected ?c) (expected_key ?t)) = None
           \<or> py_float no_float_of_str (JNum (- 9)) = None"
    by (simp add: dict_get_def)
  from run_benchmark_aborts_on_non_numeric [OF 1 2 3 4 5, of fixed_env None]
  obtain e where e: "run_benchmark no_float_of_str fixed_env absent_key_suite GoldenAdapter None
                     = Inl e" by blast
  have "run_benchmark no_float_of_str fixed_env absent_key_suite GoldenAdapter None
        = Inl (ValueError ''Expected numeric value, got ...'')"
    by (simp add: run_benchmark_def absent_key_suite_def run_task_def GoldenAdapter_def
        dict_get_def compute_metric_def Let_def)
  with e show ?thesis by simp
qed


end
